theory Spec2Isabelle
  imports Main
begin

section \<open>LiFX node server: a shallow embedding of lifx-poly.py\<close>

text \<open>
  The node classes of \<^verbatim>\<open>lifx-poly.py\<close> are Python objects that talk to a bulb through
  the lifxlan library, to the hub through \<^verbatim>\<open>setDriver\<close>/\<^verbatim>\<open>reportCmd\<close> and to the log.
  In the model
  \<^item> an object is a record; a method takes the record and returns the updated one;
  \<^item> every effect is appended to the field \<open>trace\<close> of the record, in program order;
  \<^item> the bulb is a parameter: a record of functions giving the outcome of the device
    call issued as the \<open>n\<close>-th one (field \<open>tick\<close> counts the calls issued so far);
  \<^item> an exception that no handler of the method catches ends the method: the result is
    \<open>Raised e s\<close>, with the state \<open>s\<close> the object was left in.
\<close>

subsection \<open>Constants\<close>

definition BR_INCREMENT :: int where "BR_INCREMENT = 2620"
definition BR_MIN :: int where "BR_MIN = 1310"
definition BR_MAX :: int where "BR_MAX = 65535"
definition FADE_INTERVAL :: int where "FADE_INTERVAL = 5000"
definition BRTDIM_INTERVAL :: int where "BRTDIM_INTERVAL = 400"

text \<open>The table \<^verbatim>\<open>COLORS\<close>: preset number to name and HSBK value; other keys raise KeyError.\<close>

definition COLORS :: "int \<Rightarrow> (string \<times> int list) option" where
  "COLORS k =
     (if k = 0 then Some (''RED'', [62978, 65535, 65535, 3500])
      else if k = 1 then Some (''ORANGE'', [5525, 65535, 65535, 3500])
      else if k = 2 then Some (''YELLOW'', [7615, 65535, 65535, 3500])
      else if k = 3 then Some (''GREEN'', [16173, 65535, 65535, 3500])
      else if k = 4 then Some (''CYAN'', [29814, 65535, 65535, 3500])
      else if k = 5 then Some (''BLUE'', [43634, 65535, 65535, 3500])
      else if k = 6 then Some (''PURPLE'', [50486, 65535, 65535, 3500])
      else if k = 7 then Some (''PINK'', [58275, 65535, 47142, 3500])
      else if k = 8 then Some (''WHITE'', [58275, 0, 65535, 5500])
      else if k = 9 then Some (''COLD_WHTE'', [58275, 0, 65535, 9000])
      else if k = 10 then Some (''WARM_WHITE'', [58275, 0, 65535, 3200])
      else if k = 11 then Some (''GOLD'', [58275, 0, 65535, 2500])
      else None)"

subsection \<open>Exceptions, effects and the device\<close>

datatype exn =
    WorkflowException | OSError | TypeError | ValueError | IndexError | KeyError
  | AttributeError | UnboundLocalError | OverflowError

datatype 's outcome = Returned 's | Raised exn 's

fun state_of :: "'s outcome \<Rightarrow> 's" where
  "state_of (Returned s) = s"
| "state_of (Raised e s) = s"

fun andThen :: "'s outcome \<Rightarrow> ('s \<Rightarrow> 's outcome) \<Rightarrow> 's outcome" where
  "andThen (Returned s) f = f s"
| "andThen (Raised e s) f = Raised e s"

type_synonym hsbk = "int list"
type_synonym tilecolors = "int list list list"

text \<open>
  The calls the node classes make on a lifxlan device object. The keyword \<^verbatim>\<open>rapid\<close> is
  \<^verbatim>\<open>False\<close> at every call site modelled here and is left out.
\<close>

datatype dev_call =
    GetColor
  | GetPower
  | SetColor hsbk int
  | SetPower bool
  | GetColorZones
  | SetZoneColor int int hsbk int
  | SetWaveform int hsbk int int int int
  | GetTilechainColors
  | SetTilechainColors tilecolors int
  | SetTileEffect int int int "hsbk list"

text \<open>
  A value handed to \<^verbatim>\<open>setDriver\<close>. \<^verbatim>\<open>_bri_to_percent\<close> computes in floating point; the
  model keeps its argument: \<open>Percent b\<close> stands for \<^verbatim>\<open>_bri_to_percent(b)\<close> and
  \<open>PercentAvg t n\<close> for \<^verbatim>\<open>_bri_to_percent(t / n)\<close>.
\<close>

datatype drv = DInt int | Percent int | PercentAvg int nat

datatype level = Debug | Info | Error

datatype event =
    Call dev_call
  | SetDriver string drv
  | ReportCmd string
  | Log level string

fun is_call :: "event \<Rightarrow> bool" where
  "is_call (Call c) = True"
| "is_call e = False"

fun is_write :: "event \<Rightarrow> bool" where
  "is_write (Call (SetColor c d)) = True"
| "is_write (Call (SetPower p)) = True"
| "is_write (Call (SetZoneColor a b c d)) = True"
| "is_write (Call (SetWaveform a b c d e f)) = True"
| "is_write (Call (SetTilechainColors c d)) = True"
| "is_write (Call (SetTileEffect a b c d)) = True"
| "is_write e = False"

fun is_report :: "event \<Rightarrow> bool" where
  "is_report (ReportCmd c) = True"
| "is_report e = False"

text \<open>
  The bulb as the program sees it: what the call issued at tick \<open>n\<close> does. A read returns
  a value or raises; a write returns nothing or raises.
\<close>

record device =
  get_color :: "nat \<Rightarrow> exn + hsbk"
  get_power :: "nat \<Rightarrow> exn + int"
  get_color_zones :: "nat \<Rightarrow> exn + hsbk list"
  get_tilechain_colors :: "nat \<Rightarrow> exn + tilecolors"
  do_write :: "nat \<Rightarrow> dev_call \<Rightarrow> exn option"

subsection \<open>Python list indexing\<close>

text \<open>\<^verbatim>\<open>xs[i]\<close>: a negative index counts from the end, an index out of range raises IndexError.\<close>

definition item :: "'a list \<Rightarrow> int \<Rightarrow> 'a option" where
  "item xs i =
     (let n = int (length xs); j = (if i < 0 then n + i else i)
      in if 0 \<le> j \<and> j < n then Some (xs ! nat j) else None)"

text \<open>\<^verbatim>\<open>xs[i] = v\<close>.\<close>

definition setitem :: "'a list \<Rightarrow> int \<Rightarrow> 'a \<Rightarrow> 'a list option" where
  "setitem xs i v =
     (let n = int (length xs); j = (if i < 0 then n + i else i)
      in if 0 \<le> j \<and> j < n then Some (xs[nat j := v]) else None)"

subsection \<open>The class Light\<close>

text \<open>
  The fields of \<^verbatim>\<open>Light\<close> that the modelled methods read or write. \<^verbatim>\<open>color\<close> is a flat
  HSBK list in \<^verbatim>\<open>Light\<close> and \<^verbatim>\<open>Tile\<close> and a list of HSBK values, one per zone, in
  \<^verbatim>\<open>MultiZone\<close>, hence the type parameter. \<open>change_pon\<close> and \<open>ignore_second_on\<close> are the
  fields of the controller reached through \<^verbatim>\<open>self.controller\<close>. The fields \<^verbatim>\<open>uptime\<close>,
  \<^verbatim>\<open>lastupdate\<close> and \<^verbatim>\<open>ir_support\<close> belong to \<^verbatim>\<open>long_update\<close>, which is not modelled.
\<close>

record 'c light =
  name :: string
  address :: string
  power :: bool
  connected :: int
  color :: "'c list"
  duration :: int
  change_pon :: bool
  ignore_second_on :: bool
  trace :: "event list"
  tick :: nat

definition emit :: "event \<Rightarrow> ('c, 'z) light_scheme \<Rightarrow> ('c, 'z) light_scheme" where
  "emit e s = s\<lparr>trace := trace s @ [e]\<rparr>"

definition log :: "level \<Rightarrow> string \<Rightarrow> ('c, 'z) light_scheme \<Rightarrow> ('c, 'z) light_scheme" where
  "log l m s = emit (Log l m) s"

definition setDriver :: "string \<Rightarrow> drv \<Rightarrow> ('c, 'z) light_scheme \<Rightarrow> ('c, 'z) light_scheme" where
  "setDriver d v s = emit (SetDriver d v) s"

definition reportCmd :: "string \<Rightarrow> ('c, 'z) light_scheme \<Rightarrow> ('c, 'z) light_scheme" where
  "reportCmd c s = emit (ReportCmd c) s"

text \<open>Issuing a device call: it is recorded and the tick advances.\<close>

definition issue :: "dev_call \<Rightarrow> ('c, 'z) light_scheme \<Rightarrow> ('c, 'z) light_scheme" where
  "issue c s = (emit (Call c) s)\<lparr>tick := Suc (tick s)\<rparr>"

text \<open>
  \<^verbatim>\<open>try: self.device.<write>(...) except <caught>: <handler> else: <orelse>\<close>; an
  exception that is not caught leaves the method. \<open>try_write\<close> is the common case
  \<^verbatim>\<open>except lifxlan.WorkflowException\<close>.
\<close>

definition try_call ::
  "device \<Rightarrow> (exn \<Rightarrow> bool) \<Rightarrow> dev_call \<Rightarrow> ('c, 'z) light_scheme
   \<Rightarrow> (('c, 'z) light_scheme \<Rightarrow> ('c, 'z) light_scheme outcome)
   \<Rightarrow> (('c, 'z) light_scheme \<Rightarrow> ('c, 'z) light_scheme outcome)
   \<Rightarrow> ('c, 'z) light_scheme outcome" where
  "try_call dev caught c s handler orelse =
     (case do_write dev (tick s) c of
        None \<Rightarrow> orelse (issue c s)
      | Some e \<Rightarrow> if caught e then handler (issue c s) else Raised e (issue c s))"

definition try_write ::
  "device \<Rightarrow> dev_call \<Rightarrow> ('c, 'z) light_scheme
   \<Rightarrow> (('c, 'z) light_scheme \<Rightarrow> ('c, 'z) light_scheme outcome)
   \<Rightarrow> (('c, 'z) light_scheme \<Rightarrow> ('c, 'z) light_scheme outcome)
   \<Rightarrow> ('c, 'z) light_scheme outcome" where
  "try_write dev c s handler orelse =
     try_call dev (\<lambda>e. e = WorkflowException) c s handler orelse"

text \<open>
  \<^verbatim>\<open>for ind, driver in enumerate(('GV1', 'GV2', 'GV3', 'CLITEMP')): self.setDriver(driver, c[ind])\<close>
\<close>

fun report_color ::
  "(string \<times> int) list \<Rightarrow> hsbk \<Rightarrow> ('c, 'z) light_scheme \<Rightarrow> ('c, 'z) light_scheme outcome" where
  "report_color [] c s = Returned s"
| "report_color ((d, i) # ds) c s =
     (case item c i of
        None \<Rightarrow> Raised IndexError s
      | Some v \<Rightarrow> report_color ds c (setDriver d (DInt v) s))"

definition color_drivers :: "(string \<times> int) list" where
  "color_drivers = [(''GV1'', 0), (''GV2'', 1), (''GV3'', 2), (''CLITEMP'', 3)]"

text \<open>\<^verbatim>\<open>Light.update\<close>\<close>

definition Light_update_power :: "device \<Rightarrow> int light \<Rightarrow> int light outcome" where
  "Light_update_power dev s =
     andThen
       (case get_power dev (tick s) of
          Inl ex \<Rightarrow> Returned (log Error ''Connection Error on getting bulb power'' (issue GetPower s))
        | Inr p \<Rightarrow>
            (let s1 = issue GetPower s;
                 power_now = (p = 65535);
                 s2 = (if power s1 \<noteq> power_now
                       then (if power_now then reportCmd ''DON'' s1 else reportCmd ''DOF'' s1)
                       else s1);
                 s3 = s2\<lparr>power := power_now\<rparr>;
                 s4 = s3\<lparr>connected := 1\<rparr>
             in if power s4
                then (case item (color s4) 2 of
                        None \<Rightarrow> Raised IndexError s4
                      | Some b \<Rightarrow> Returned (setDriver ''ST'' (Percent b) s4))
                else Returned (setDriver ''ST'' (DInt 0) s4)))
       (\<lambda>s. Returned (setDriver ''RR'' (DInt (duration s))
                        (setDriver ''GV5'' (DInt (connected s)) s)))"

definition Light_update :: "device \<Rightarrow> int light \<Rightarrow> int light outcome" where
  "Light_update dev s0 =
     (let s1 = s0\<lparr>connected := 0\<rparr> in
      case get_color dev (tick s1) of
        Inl ex \<Rightarrow>
          Returned (setDriver ''GV5'' (DInt 0)
                     (log Error ''Connection Error on getting bulb color'' (issue GetColor s1)))
      | Inr c \<Rightarrow>
          andThen (report_color color_drivers c ((issue GetColor s1)\<lparr>color := c, connected := 1\<rparr>))
                  (Light_update_power dev))"

text \<open>\<^verbatim>\<open>self.setDriver(d, self.color[i])\<close> and \<^verbatim>\<open>self.setDriver('ST', self._bri_to_percent(self.color[2]))\<close>\<close>

definition setDriver_color :: "string \<Rightarrow> int \<Rightarrow> int light \<Rightarrow> int light outcome" where
  "setDriver_color d i s =
     (case item (color s) i of
        None \<Rightarrow> Raised IndexError s
      | Some v \<Rightarrow> Returned (setDriver d (DInt v) s))"

definition setDriver_ST_bri :: "int light \<Rightarrow> int light outcome" where
  "setDriver_ST_bri s =
     (case item (color s) 2 of
        None \<Rightarrow> Raised IndexError s
      | Some b \<Rightarrow> Returned (setDriver ''ST'' (Percent b) s))"

text \<open>\<^verbatim>\<open>self.color[i] = v\<close>\<close>

definition assign_color :: "int \<Rightarrow> int \<Rightarrow> int light \<Rightarrow> int light outcome" where
  "assign_color i v s =
     (case setitem (color s) i v of
        None \<Rightarrow> Raised IndexError s
      | Some c \<Rightarrow> Returned (s\<lparr>color := c\<rparr>))"

text \<open>\<^verbatim>\<open>Light._power_on_change\<close>\<close>

definition power_on_change :: "device \<Rightarrow> int light \<Rightarrow> int light outcome" where
  "power_on_change dev s =
     (if \<not> change_pon s \<or> power s then Returned s
      else try_write dev (SetPower True) s
             (\<lambda>s. Returned (log Error ''Connection Error on setting bulb power'' s))
             (\<lambda>s. setDriver_ST_bri (s\<lparr>power := True\<rparr>)))"

text \<open>
  \<^verbatim>\<open>int(round(int(val)*65535/255))\<close>. The division is Python's true division of two
  integers: it yields the float nearest to the exact quotient, and raises OverflowError
  when that quotient is beyond the floats, that is from \<open>2 ^ 1024 - 2 ^ 970\<close> on in
  absolute value. The exact quotient is the integer \<open>val * 257\<close>, since 65535 = 255 * 257.
  Every integer up to \<open>2 ^ 53\<close> in absolute value is a float, so there the float is the
  quotient and \<^verbatim>\<open>round\<close> and \<^verbatim>\<open>int\<close> leave it as it is. Beyond, the float is near the
  quotient only, but it is on the same side and at least \<open>2 ^ 53\<close> in absolute value:
  the clamp that follows in \<^verbatim>\<open>setOn\<close> takes it to the bound it takes the quotient to.
  So \<open>scale_255\<close> is the exact quotient, used only under the clamp, and
  \<open>float_overflow\<close> says when the division raises.
\<close>

definition scale_255 :: "int \<Rightarrow> int" where
  "scale_255 val = (val * 65535) div 255"

definition float_overflow :: "int \<Rightarrow> bool" where
  "float_overflow q = (\<bar>q\<bar> \<ge> 2 ^ 1024 - 2 ^ 970)"

text \<open>
  \<^verbatim>\<open>Light.setOn\<close>. The \<^verbatim>\<open>if\<close>/\<^verbatim>\<open>elif\<close> chain at its head either returns at once
  (\<open>Ignore\<close>) or goes on with \<^verbatim>\<open>new_bri\<close> and \<^verbatim>\<open>trans\<close> set or with \<^verbatim>\<open>new_bri\<close> still
  \<^verbatim>\<open>None\<close>; \<^verbatim>\<open>self.color[2]\<close> is read only on the branches that reach it.
\<close>

datatype on_plan = Ignore | Proceed "(int \<times> int) option"

definition setOn_plan :: "string \<Rightarrow> int option \<Rightarrow> int light \<Rightarrow> exn + on_plan" where
  "setOn_plan cmd val s =
     (if cmd = ''DFON'' \<and> item (color s) 2 = None then Inl IndexError
      else if cmd = ''DFON'' \<and> item (color s) 2 \<noteq> Some BR_MAX then Inr (Proceed (Some (BR_MAX, 0)))
      else if cmd = ''DON'' \<and> val \<noteq> None then
        (if float_overflow (scale_255 (the val)) then Inl OverflowError
         else
           (let new_bri = scale_255 (the val);
                new_bri = (if new_bri > BR_MAX then BR_MAX
                           else if new_bri < BR_MIN then BR_MIN else new_bri)
            in Inr (Proceed (Some (new_bri, duration s)))))
      else if power s \<and> ignore_second_on s then Inr Ignore
      else if power s \<and> item (color s) 2 = None then Inl IndexError
      else if power s \<and> item (color s) 2 \<noteq> Some BR_MAX then
        Inr (Proceed (Some (BR_MAX, duration s)))
      else Inr (Proceed None))"

definition setOn :: "device \<Rightarrow> string \<Rightarrow> int option \<Rightarrow> int light \<Rightarrow> int light outcome" where
  "setOn dev cmd val s =
     (case setOn_plan cmd val s of
        Inl e \<Rightarrow> Raised e s
      | Inr Ignore \<Rightarrow> Returned (log Info ''is already On, ignoring DON'' s)
      | Inr (Proceed target) \<Rightarrow>
          andThen
            (case target of
               None \<Rightarrow> Returned s
             | Some (new_bri, transition) \<Rightarrow>
                 andThen (assign_color 2 new_bri s)
                   (\<lambda>s. try_write dev (SetColor (color s) transition) s
                           (\<lambda>s. Returned (log Error ''Connection Error DON'' s))
                           (setDriver_color ''GV3'' 2)))
            (\<lambda>s. try_write dev (SetPower True) s
                    (\<lambda>s. Returned (log Error ''Connection Error on setting bulb power'' s))
                    (\<lambda>s. setDriver_ST_bri (s\<lparr>power := True\<rparr>))))"

text \<open>\<^verbatim>\<open>Light.setOff\<close>\<close>

definition setOff :: "device \<Rightarrow> int light \<Rightarrow> int light outcome" where
  "setOff dev s =
     try_write dev (SetPower False) s
       (\<lambda>s. Returned (log Error ''Connection Error on setting bulb power'' s))
       (\<lambda>s. Returned (setDriver ''ST'' (DInt 0) (s\<lparr>power := False\<rparr>)))"

text \<open>\<^verbatim>\<open>Light.dim\<close>: the test for a bulb that is off logs and goes on.\<close>

definition dim :: "device \<Rightarrow> int light \<Rightarrow> int light outcome" where
  "dim dev s0 =
     (let s = (if \<not> power s0 then log Info ''is off, ignoring DIM'' s0 else s0) in
      case item (color s) 2 of
        None \<Rightarrow> Raised IndexError s
      | Some b \<Rightarrow>
          (let new_bri = b - BR_INCREMENT;
               new_bri = (if new_bri < BR_MIN then BR_MIN else new_bri)
           in andThen (assign_color 2 new_bri s)
                (\<lambda>s. try_write dev (SetColor (color s) BRTDIM_INTERVAL) s
                        (\<lambda>s. Returned (log Error ''Connection Error on dimming'' s))
                        (\<lambda>s. andThen (setDriver_ST_bri s) (setDriver_color ''GV3'' 2)))))"

text \<open>
  The block shared by \<^verbatim>\<open>brighten\<close> and \<^verbatim>\<open>fade_up\<close> for a bulb that is off: turn it on
  at the minimum, both writes under one \<^verbatim>\<open>try\<close>.
\<close>

definition turn_on_at_min :: "device \<Rightarrow> int light \<Rightarrow> int light outcome" where
  "turn_on_at_min dev s =
     andThen (assign_color 2 BR_MIN s)
       (\<lambda>s. try_write dev (SetColor (color s) 0) s
               (\<lambda>s. Returned (log Error ''Connection Error on brightnening'' s))
               (\<lambda>s. try_write dev (SetPower True) s
                       (\<lambda>s. Returned (log Error ''Connection Error on brightnening'' s))
                       (\<lambda>s. setDriver_ST_bri (s\<lparr>power := True\<rparr>))))"

text \<open>\<^verbatim>\<open>Light.brighten\<close>\<close>

definition brighten :: "device \<Rightarrow> int light \<Rightarrow> int light outcome" where
  "brighten dev s =
     (if \<not> power s then turn_on_at_min dev s
      else
        case item (color s) 2 of
          None \<Rightarrow> Raised IndexError s
        | Some b \<Rightarrow>
            (let new_bri = b + BR_INCREMENT;
                 new_bri = (if new_bri > BR_MAX then BR_MAX else new_bri)
             in andThen (assign_color 2 new_bri s)
                  (\<lambda>s. try_write dev (SetColor (color s) BRTDIM_INTERVAL) s
                          (\<lambda>s. Returned (log Error ''Connection Error on dimming'' s))
                          (\<lambda>s. andThen (setDriver_ST_bri s) (setDriver_color ''GV3'' 2)))))"

text \<open>\<^verbatim>\<open>Light.fade_up\<close>\<close>

definition fade_up :: "device \<Rightarrow> int light \<Rightarrow> int light outcome" where
  "fade_up dev s0 =
     andThen (if \<not> power s0 then turn_on_at_min dev s0 else Returned s0)
       (\<lambda>s. case item (color s) 2 of
               None \<Rightarrow> Raised IndexError s
             | Some b \<Rightarrow>
                 if b = BR_MAX then Returned (log Info ''Can not FadeUp, already at maximum'' s)
                 else andThen (assign_color 2 BR_MAX s)
                        (\<lambda>s. try_write dev (SetColor (color s) FADE_INTERVAL) s
                                (\<lambda>s. Returned (log Error ''Connection Error bulb Fade Up'' s))
                                Returned))"

text \<open>\<^verbatim>\<open>Light.fade_down\<close>\<close>

definition fade_down :: "device \<Rightarrow> int light \<Rightarrow> int light outcome" where
  "fade_down dev s =
     (if \<not> power s then Returned (log Error ''can not FadeDown as it is currently off'' s)
      else
        case item (color s) 2 of
          None \<Rightarrow> Raised IndexError s
        | Some b \<Rightarrow>
            if b \<le> BR_MIN
            then Returned (log Error ''can not FadeDown as it is currently at minimum'' s)
            else andThen (assign_color 2 BR_MIN s)
                   (\<lambda>s. try_write dev (SetColor (color s) FADE_INTERVAL) s
                           (\<lambda>s. Returned (log Error ''Connection Error bulb Fade Down'' s))
                           Returned))"

text \<open>\<^verbatim>\<open>Light.fade_stop\<close>\<close>

definition fade_stop :: "device \<Rightarrow> int light \<Rightarrow> int light outcome" where
  "fade_stop dev s0 =
     (if \<not> power s0 then Returned (log Error ''can not FadeStop as it is currently off'' s0)
      else
        andThen
          (case get_color dev (tick s0) of
             Inl ex \<Rightarrow>
               Returned (log Error ''Connection Error on getting bulb color'' (issue GetColor s0))
           | Inr c \<Rightarrow> report_color color_drivers c ((issue GetColor s0)\<lparr>color := c\<rparr>))
          (\<lambda>s. case item (color s) 2 of
                  None \<Rightarrow> Raised IndexError s
                | Some b \<Rightarrow>
                    if b = BR_MIN \<or> b = BR_MAX
                    then Returned (log Error ''can not FadeStop as it is currently at limit'' s)
                    else try_write dev (SetColor (color s) 0) s
                           (\<lambda>s. Returned (log Error ''Connection Error bulb Fade Stop'' s))
                           Returned))"

text \<open>\<^verbatim>\<open>Light.setColor\<close>; \<^verbatim>\<open>int(None)\<close> raises TypeError, an unknown preset KeyError.\<close>

definition setColor :: "device \<Rightarrow> int option \<Rightarrow> int light \<Rightarrow> int light outcome" where
  "setColor dev val s =
     (if connected s \<noteq> 0 then
        (case val of
           None \<Rightarrow> Raised TypeError s
         | Some c \<Rightarrow>
             (case COLORS c of
                None \<Rightarrow> Raised KeyError s
              | Some (label, preset) \<Rightarrow>
                  andThen
                    (try_write dev (SetColor preset (duration s)) s
                       (\<lambda>s. Returned (log Error ''Connection Error on setting bulb color'' s))
                       Returned)
                    (\<lambda>s. andThen
                            (report_color color_drivers preset
                               (log Info (''Received SetColor command from ISY. Changing color to: '' @ label) s))
                            (power_on_change dev))))
      else Returned (log Error ''Received SetColor, however the bulb is in a disconnected state... ignoring'' s))"

text \<open>
  \<^verbatim>\<open>Light.setManual\<close>. For a command name outside the five of the chain \<^verbatim>\<open>driver\<close> is
  never bound and \<^verbatim>\<open>if driver:\<close> raises UnboundLocalError, after the write.
\<close>

definition Light_setManual ::
  "device \<Rightarrow> string \<Rightarrow> int option \<Rightarrow> int light \<Rightarrow> int light outcome" where
  "Light_setManual dev cmd val s =
     (if connected s \<noteq> 0 then
        (case val of
           None \<Rightarrow> Raised TypeError s
         | Some v \<Rightarrow>
             andThen
               (if cmd = ''SETH'' then assign_color 0 v s
                else if cmd = ''SETS'' then assign_color 1 v s
                else if cmd = ''SETB'' then assign_color 2 v s
                else if cmd = ''CLITEMP'' then assign_color 3 v s
                else if cmd = ''RR'' then Returned (s\<lparr>duration := v\<rparr>)
                else Returned s)
               (\<lambda>s. andThen
                       (try_write dev (SetColor (color s) (duration s)) s
                          (\<lambda>s. Returned (log Error ''Connection Error on setting bulb'' s))
                          Returned)
                       (\<lambda>s. let s1 = log Info ''Received manual change, updating the bulb'' s in
                             andThen
                               (if cmd = ''SETH'' then setDriver_color ''GV1'' 0 s1
                                else if cmd = ''SETS'' then setDriver_color ''GV2'' 1 s1
                                else if cmd = ''SETB'' then setDriver_color ''GV3'' 2 s1
                                else if cmd = ''CLITEMP'' then setDriver_color ''CLITEMP'' 3 s1
                                else if cmd = ''RR'' then
                                  Returned (setDriver ''RR'' (DInt (duration s1)) s1)
                                else Raised UnboundLocalError s1)
                               (power_on_change dev))))
      else Returned (log Info ''Received manual change, however the bulb is in a disconnected state... ignoring'' s))"

text \<open>
  \<^verbatim>\<open>Light.setHSBKD\<close>. A query is the dictionary of the command's parameters;
  \<^verbatim>\<open>int(query.get(k))\<close> raises TypeError for a missing key, which the first \<^verbatim>\<open>try\<close> catches.
\<close>

type_synonym query = "string \<Rightarrow> int option"

definition setHSBKD :: "device \<Rightarrow> query \<Rightarrow> int light \<Rightarrow> int light outcome" where
  "setHSBKD dev q s0 =
     (let s =
        (case those [q ''H.uom56'', q ''S.uom56'', q ''B.uom56'', q ''K.uom26''] of
           None \<Rightarrow> s0\<lparr>duration := 0\<rparr>
         | Some c \<Rightarrow>
             (case q ''D.uom42'' of
                None \<Rightarrow> s0\<lparr>color := c, duration := 0\<rparr>
              | Some d \<Rightarrow>
                  log Info ''Received manual change, updating the bulb''
                    (s0\<lparr>color := c, duration := d\<rparr>)))
      in andThen
           (try_write dev (SetColor (color s) (duration s)) s
              (\<lambda>s. Returned (log Error ''Connection Error on setting bulb color'' s))
              Returned)
           (\<lambda>s. andThen (report_color color_drivers (color s) s)
                   (\<lambda>s. andThen (power_on_change dev s)
                           (\<lambda>s. Returned (setDriver ''RR'' (DInt (duration s)) s)))))"

text \<open>\<^verbatim>\<open>Light.set_wf\<close>; the debug line reads \<^verbatim>\<open>WAVEFORM[wf_form]\<close> before the write.\<close>

definition WAVEFORM :: "string list" where
  "WAVEFORM = [''Saw'', ''Sine'', ''HalfSine'', ''Triangle'', ''Pulse'']"

definition set_wf :: "device \<Rightarrow> query \<Rightarrow> int light \<Rightarrow> int light outcome" where
  "set_wf dev q s =
     (if \<not> power s then Returned (log Error ''can not run Waveform as it is currently off'' s)
      else
        case those [q ''H.uom56'', q ''S.uom56'', q ''B.uom56'', q ''K.uom26'',
                    q ''PE.uom42'', q ''CY.uom56'', q ''DC.uom56'', q ''WF.uom25''] of
          Some [h, sa, b, k, wf_period, wf_cycles, wf_duty_cycle, form_code] \<Rightarrow>
            (let wf_transient = (if form_code \<ge> 5 then 1 else 0);
                 wf_form = (if form_code \<ge> 5 then form_code - 5 else form_code)
             in case item WAVEFORM wf_form of
                  None \<Rightarrow> Raised IndexError s
                | Some form_name \<Rightarrow>
                    try_write dev
                      (SetWaveform wf_transient [h, sa, b, k] wf_period wf_cycles wf_duty_cycle wf_form)
                      (log Debug (''Waveform '' @ form_name) s)
                      (\<lambda>s. Returned (log Error ''Connection Error on setting bulb Waveform'' s))
                      Returned)
        | _ \<Rightarrow> Raised TypeError s)"

subsection \<open>The class MultiZone\<close>

text \<open>
  The field \<^verbatim>\<open>new_color\<close> (the pending batch of \<^verbatim>\<open>setHSBKDZ\<close> and \<^verbatim>\<open>apply\<close>) and the
  field \<^verbatim>\<open>effect\<close> are not read by the methods modelled here and are left out.
\<close>

record multizone = "hsbk light" +
  num_zones :: nat
  current_zone :: int
  pending :: bool

text \<open>
  Every zone method starts with
  \<^verbatim>\<open>zone = deepcopy(self.current_zone); if self.current_zone != 0: zone -= 1\<close>
  and later writes to the whole device when \<^verbatim>\<open>self.current_zone == 0\<close> and to the single
  zone \<^verbatim>\<open>zone\<close> otherwise.
\<close>

definition zone_index :: "int \<Rightarrow> int" where
  "zone_index cz = (if cz \<noteq> 0 then cz - 1 else cz)"

definition zone_write :: "int \<Rightarrow> hsbk \<Rightarrow> int \<Rightarrow> dev_call" where
  "zone_write cz c d =
     (if cz = 0 then SetColor c d else SetZoneColor (zone_index cz) (zone_index cz) c d)"

text \<open>\<^verbatim>\<open>MultiZone._set_st\<close>: the loop adds up \<^verbatim>\<open>z[2]\<close> over the zones.\<close>

fun sum_brightness :: "hsbk list \<Rightarrow> int \<Rightarrow> int option" where
  "sum_brightness [] acc = Some acc"
| "sum_brightness (z # zs) acc =
     (case item z 2 of None \<Rightarrow> None | Some b \<Rightarrow> sum_brightness zs (acc + b))"

definition set_st :: "multizone \<Rightarrow> multizone outcome" where
  "set_st s =
     (if num_zones s = 0 then Returned s
      else if power s then
        (case sum_brightness (color s) 0 of
           None \<Rightarrow> Raised IndexError s
         | Some avg_brightness \<Rightarrow>
             Returned (setDriver ''ST'' (PercentAvg avg_brightness (num_zones s)) s))
      else Returned (setDriver ''ST'' (DInt 0) s))"

text \<open>\<^verbatim>\<open>MultiZone.update\<close>\<close>

definition MultiZone_update_power :: "device \<Rightarrow> multizone \<Rightarrow> multizone outcome" where
  "MultiZone_update_power dev s =
     andThen
       (case get_power dev (tick s) of
          Inl ex \<Rightarrow>
            Returned (log Error ''Connection Error on getting multizone power'' (issue GetPower s))
        | Inr p \<Rightarrow>
            (let s1 = issue GetPower s;
                 power_now = (p = 65535);
                 s2 = (if power s1 \<noteq> power_now
                       then (if power_now then reportCmd ''DON'' s1 else reportCmd ''DOF'' s1)
                       else s1);
                 s3 = s2\<lparr>power := power_now\<rparr>
             in set_st (s3\<lparr>connected := 1\<rparr>)))
       (\<lambda>s. Returned (setDriver ''RR'' (DInt (duration s))
                        (setDriver ''GV5'' (DInt (connected s)) s)))"

definition MultiZone_update :: "device \<Rightarrow> multizone \<Rightarrow> multizone outcome" where
  "MultiZone_update dev s0 =
     (let s1 = s0\<lparr>connected := 0\<rparr>;
          zone = zone_index (current_zone s1)
      in andThen
           (if \<not> pending s1 then
              (case get_color_zones dev (tick s1) of
                 Inl ex \<Rightarrow>
                   Returned (log Error ''Connection Error on getting multizone color''
                              (issue GetColorZones s1))
               | Inr c \<Rightarrow>
                   (let s2 = (issue GetColorZones s1)\<lparr>color := c, connected := 1,
                                                        num_zones := length c\<rparr>
                    in andThen
                         (case item (color s2) zone of
                            None \<Rightarrow> Raised IndexError s2
                          | Some zc \<Rightarrow> report_color color_drivers zc s2)
                         (\<lambda>s. Returned (setDriver ''GV4'' (DInt (current_zone s)) s))))
            else Returned s1)
           (MultiZone_update_power dev))"

text \<open>
  \<^verbatim>\<open>MultiZone.setManual\<close>. The handler of its \<^verbatim>\<open>try\<close> catches WorkflowException and
  TypeError; IndexError from \<^verbatim>\<open>self.color[zone]\<close> or \<^verbatim>\<open>new_color[i] = ...\<close> is not caught.
\<close>

definition move_cursor :: "string \<Rightarrow> int \<Rightarrow> multizone \<Rightarrow> multizone" where
  "move_cursor cmd v s0 =
     (if cmd = ''SETZ''
      then (let s = s0\<lparr>current_zone := v\<rparr>
            in if current_zone s > int (num_zones s) then s\<lparr>current_zone := 0\<rparr> else s)
      else s0)"

text \<open>The chain that edits \<^verbatim>\<open>new_color\<close>, a copy of the zone's colour.\<close>

definition edit_field :: "string \<Rightarrow> int \<Rightarrow> hsbk \<Rightarrow> hsbk option" where
  "edit_field cmd v zc =
     (if cmd = ''SETH'' then setitem zc 0 v
      else if cmd = ''SETS'' then setitem zc 1 v
      else if cmd = ''SETB'' then setitem zc 2 v
      else if cmd = ''CLITEMP'' then setitem zc 3 v
      else Some zc)"

text \<open>
  \<^verbatim>\<open>if driver: self.setDriver(driver[0], driver[1])\<close>, with \<^verbatim>\<open>driver\<close> as the command
  bound it; no branch binds it for a command name outside the six.
\<close>

definition report_field :: "string \<Rightarrow> int \<Rightarrow> multizone \<Rightarrow> multizone outcome" where
  "report_field cmd v s =
     (if cmd = ''SETH'' then Returned (setDriver ''GV1'' (DInt v) s)
      else if cmd = ''SETS'' then Returned (setDriver ''GV2'' (DInt v) s)
      else if cmd = ''SETB'' then Returned (setDriver ''GV3'' (DInt v) s)
      else if cmd = ''CLITEMP'' then Returned (setDriver ''CLITEMP'' (DInt v) s)
      else if cmd = ''RR'' then Returned (setDriver ''RR'' (DInt (duration s)) s)
      else if cmd = ''SETZ'' then Returned (setDriver ''GV4'' (DInt (current_zone s)) s)
      else Raised UnboundLocalError s)"

definition MultiZone_setManual ::
  "device \<Rightarrow> string \<Rightarrow> int option \<Rightarrow> multizone \<Rightarrow> multizone outcome" where
  "MultiZone_setManual dev cmd val s0 =
     (if connected s0 \<noteq> 0 then
        (case val of
           None \<Rightarrow> Raised TypeError s0
         | Some v \<Rightarrow>
             (let s1 = move_cursor cmd v s0;
                  zone = zone_index (current_zone s1)
              in case item (color s1) zone of
                   None \<Rightarrow> Raised IndexError s1
                 | Some zc \<Rightarrow>
                     (case edit_field cmd v zc of
                        None \<Rightarrow> Raised IndexError s1
                      | Some new_color \<Rightarrow>
                          (let s2 = (if cmd = ''RR'' then s1\<lparr>duration := v\<rparr> else s1) in
                           case setitem (color s2) zone new_color of
                             None \<Rightarrow> Raised IndexError s2
                           | Some zones \<Rightarrow>
                               andThen
                                 (try_call dev (\<lambda>e. e = WorkflowException \<or> e = TypeError)
                                    (zone_write (current_zone s2) new_color (duration s2))
                                    (s2\<lparr>color := zones\<rparr>)
                                    (\<lambda>s. Returned (log Error ''setmanual mz error'' s))
                                    Returned)
                                 (\<lambda>s. report_field cmd v
                                         (log Info ''Received manual change, updating the mz bulb zone'' s))))))
      else Returned (log Info ''Received manual change, however the mz bulb is in a disconnected state... ignoring'' s0))"

subsection \<open>The class Tile\<close>

text \<open>
  \<open>saved_tile_colors\<close> is the entry \<^verbatim>\<open>'saved_tile_colors'\<close> of the controller's custom
  data, reached through \<^verbatim>\<open>self.controller.cust_data\<close>: \<open>None\<close> while the key is absent,
  else the dictionary from node address to the dictionary from memory slot to colours.
\<close>

record tile = "int light" +
  tile_count :: int
  effect :: int
  saved_tile_colors :: "(string \<rightharpoonup> (string \<rightharpoonup> tilecolors)) option"

text \<open>
  \<^verbatim>\<open>Tile.save_state\<close>; \<open>mem_index\<close> is \<^verbatim>\<open>str(command.get('value'))\<close>. The two \<^verbatim>\<open>if\<close>s create
  the nested dictionaries where they are absent.
\<close>

definition save_state :: "device \<Rightarrow> string \<Rightarrow> tile \<Rightarrow> tile outcome" where
  "save_state dev mem_index t =
     (case get_tilechain_colors dev (tick t) of
        Inl ex \<Rightarrow> Returned (log Error ''Failed to retrieve colors'' (issue GetTilechainColors t))
      | Inr color_array \<Rightarrow>
          (let t1 = issue GetTilechainColors t;
               store = (case saved_tile_colors t1 of None \<Rightarrow> Map.empty | Some m \<Rightarrow> m);
               slots = (case store (address t1) of None \<Rightarrow> Map.empty | Some sl \<Rightarrow> sl)
           in Returned
                (log Info ''saved_tile_colors''
                   (t1\<lparr>saved_tile_colors :=
                         Some (store(address t1 \<mapsto> slots(mem_index \<mapsto> color_array)))\<rparr>))))"

text \<open>
  \<^verbatim>\<open>Tile.recall_state\<close>. Its three \<^verbatim>\<open>try\<close> blocks catch every exception; a missing key
  at any level of the look-up is one of them.
\<close>

definition saved_lookup :: "tile \<Rightarrow> string \<Rightarrow> tilecolors option" where
  "saved_lookup t mem_index =
     (case saved_tile_colors t of
        None \<Rightarrow> None
      | Some m \<Rightarrow> (case m (address t) of None \<Rightarrow> None | Some sl \<Rightarrow> sl mem_index))"

definition recall_state :: "device \<Rightarrow> string \<Rightarrow> tile \<Rightarrow> tile outcome" where
  "recall_state dev mem_index t0 =
     andThen
       (if effect t0 > 0 then
          andThen
            (try_call dev (\<lambda>e. True) (SetTileEffect 0 3000 0 [])
               (log Info ''is running effect, stopping effect before recall_state()'' t0)
               (\<lambda>t. Returned (log Error ''Failed to stop effect'' t))
               Returned)
            (\<lambda>t. Returned (setDriver ''GV9'' (DInt 0) (t\<lparr>effect := 0\<rparr>)))
        else Returned t0)
       (\<lambda>t. case saved_lookup t mem_index of
               None \<Rightarrow> Returned (log Error ''Failed to retrieve saved tile colors'' t)
             | Some color_array \<Rightarrow>
                 try_call dev (\<lambda>e. True) (SetTilechainColors color_array (duration t)) t
                   (\<lambda>t. Returned (log Error ''Failed to set tile colors'' t))
                   Returned)"

subsection \<open>The class Controller: discovery\<close>

text \<open>
  What \<^verbatim>\<open>poly.addNode\<close> is given: the class of the node object and its name. The registry
  \<open>nodes\<close> maps a node address to it; \<^verbatim>\<open>poly.getNode\<close> is the look-up.
\<close>

datatype node_class = CLight | CMultiZone | CTile | CGroup

type_synonym node = "node_class \<times> string"

text \<open>
  The parsed device list. An entry of its \<^verbatim>\<open>bulbs\<close> section is a dictionary with the keys
  \<^verbatim>\<open>name\<close>, \<^verbatim>\<open>mac\<close>, \<^verbatim>\<open>ip\<close> and \<^verbatim>\<open>type\<close>; the loop over the bulbs adds the key
  \<^verbatim>\<open>object\<close> (here the pair of mac and ip the lifxlan object is made from) to the entries
  it creates a node for. The document itself is a mapping (\<open>YMap\<close>, each section present
  or not) or empty (\<open>YNull\<close>, Python's \<^verbatim>\<open>None\<close>).
\<close>

record bulb =
  b_name :: string
  b_mac :: string
  b_ip :: string
  b_type :: string
  b_object :: "(string \<times> string) option"

record grp =
  g_name :: string
  g_address :: string
  g_members :: "string list"

datatype yaml = YNull | YMap "bulb list option" "grp list option"

text \<open>A device object returned by \<^verbatim>\<open>get_lights\<close>, with the outcome of each query on it.\<close>

record found =
  f_mac :: string
  f_label :: "exn + string"
  f_multizone :: "exn + bool"
  f_group :: "exn + string"

text \<open>The file system and the LAN as the discovery thread sees them.\<close>

record world =
  open_file :: "string \<Rightarrow> exn option"
  load_yaml :: "string \<Rightarrow> exn + yaml"
  get_lights :: "exn + found list"
  get_devices_by_group :: "string \<Rightarrow> exn option"

datatype cevent =
    CLog level string
  | OpenFile string
  | LoadYaml string
  | GetLights
  | GetLabel string
  | SupportsMultizone string
  | GetGroupTuple string
  | GetDevicesByGroup string
  | AddNode string node
  | CSetDriver string int

record controller =
  devlist :: "string option"
  bulbs_found :: int
  update_nodes :: bool
  GV0 :: "int option"
  nodes :: "string \<rightharpoonup> node"
  ctrace :: "cevent list"

definition cemit :: "cevent \<Rightarrow> controller \<Rightarrow> controller" where
  "cemit e c = c\<lparr>ctrace := ctrace c @ [e]\<rparr>"

definition clog :: "level \<Rightarrow> string \<Rightarrow> controller \<Rightarrow> controller" where
  "clog l m c = cemit (CLog l m) c"

definition addNode :: "string \<Rightarrow> node \<Rightarrow> controller \<Rightarrow> controller" where
  "addNode a n c = (cemit (AddNode a n) c)\<lparr>nodes := (nodes c)(a \<mapsto> n)\<rparr>"

text \<open>\<^verbatim>\<open>self.setDriver('GV0', self.bulbs_found)\<close>\<close>

definition setDriver_GV0 :: "controller \<Rightarrow> controller" where
  "setDriver_GV0 c = (cemit (CSetDriver ''GV0'' (bulbs_found c)) c)\<lparr>GV0 := Some (bulbs_found c)\<rparr>"

text \<open>\<^verbatim>\<open>str.lower\<close> on ASCII letters, and \<^verbatim>\<open>mac.replace(':', '').lower()\<close>.\<close>

definition lower_char :: "char \<Rightarrow> char" where
  "lower_char ch =
     (let n = (of_char ch :: nat) in if 65 \<le> n \<and> n \<le> 90 then char_of (n + 32) else ch)"

definition mac_address :: "string \<Rightarrow> string" where
  "mac_address mac = map lower_char (filter (\<lambda>ch. ch \<noteq> CHR '':'') mac)"

text \<open>\<^verbatim>\<open>glabel.replace("'", "").replace(' ', '').lower()[:12]\<close>\<close>

definition group_address :: "string \<Rightarrow> string" where
  "group_address glabel =
     take 12 (map lower_char (filter (\<lambda>ch. ch \<noteq> CHR '' '') (filter (\<lambda>ch. ch \<noteq> CHR 0x27) glabel)))"

text \<open>The loop over \<^verbatim>\<open>data['bulbs']\<close> of \<^verbatim>\<open>_manual_discovery\<close>.\<close>

fun manual_bulbs :: "bulb list \<Rightarrow> controller \<Rightarrow> bulb list \<times> controller" where
  "manual_bulbs [] c = ([], c)"
| "manual_bulbs (b # bs) c =
     (let address = mac_address (b_mac b) in
      if nodes c address = None then
        (let c1 = c\<lparr>bulbs_found := bulbs_found c + 1\<rparr>;
             made = b\<lparr>b_object := Some (b_mac b, b_ip b)\<rparr>
         in if b_type b = ''multizone'' then
              (let (bs', c') = manual_bulbs bs (addNode address (CMultiZone, b_name b)
                                                  (clog Info ''Found MultiZone Bulb'' c1))
               in (made # bs', c'))
            else if b_type b = ''bulb'' then
              (let (bs', c') = manual_bulbs bs (addNode address (CLight, b_name b)
                                                  (clog Info ''Found Bulb'' c1))
               in (made # bs', c'))
            else if b_type b = ''tile'' then
              (let (bs', c') = manual_bulbs bs (addNode address (CTile, b_name b)
                                                  (clog Info ''Found Tile'' c1))
               in (made # bs', c'))
            else
              (let (bs', c') = manual_bulbs bs (clog Error ''Unknown type'' c1)
               in (b # bs', c')))
      else (let (bs', c') = manual_bulbs bs c in (b # bs', c')))"

text \<open>
  The loops over \<^verbatim>\<open>data['groups']\<close>: the first bulb entry with the member's name is
  taken, and reading its \<^verbatim>\<open>object\<close> raises KeyError when the bulb loop made none.
\<close>

fun group_members ::
  "string list \<Rightarrow> bulb list \<Rightarrow> (string \<times> string) list \<Rightarrow> controller
   \<Rightarrow> (exn + (string \<times> string) list) \<times> controller" where
  "group_members [] bs members c = (Inr members, c)"
| "group_members (m # ms) bs members c =
     (case find (\<lambda>b. b_name b = m) bs of
        None \<Rightarrow> group_members ms bs members (clog Error ''Group light is not found'' c)
      | Some b \<Rightarrow>
          (case b_object b of
             None \<Rightarrow> (Inl KeyError, c)
           | Some d \<Rightarrow> group_members ms bs (members @ [d]) c))"

fun manual_groups :: "grp list \<Rightarrow> bulb list \<Rightarrow> controller \<Rightarrow> exn option \<times> controller" where
  "manual_groups [] bs c = (None, c)"
| "manual_groups (g # gs) bs c =
     (case group_members (g_members g) bs [] c of
        (Inl e, c1) \<Rightarrow> (Some e, c1)
      | (Inr members, c1) \<Rightarrow>
          (let c2 = clog Info ''Group members'' c1;
               c3 = (if length members > 0 \<and> nodes c2 (g_address g) = None
                     then addNode (g_address g) (CGroup, ''LIFX Group '' @ g_name g)
                            (clog Info ''Found LiFX Group'' c2)
                     else c2)
           in manual_groups gs bs c3))"

text \<open>
  \<^verbatim>\<open>Controller._manual_discovery\<close>: the value returned, or the exception that leaves it.
  The handler of a failed \<^verbatim>\<open>open\<close> reads \<^verbatim>\<open>self.paramaters\<close>, an attribute that does not
  exist, so it raises AttributeError before it logs or returns.
\<close>

definition manual_discovery :: "world \<Rightarrow> controller \<Rightarrow> (exn + bool) \<times> controller" where
  "manual_discovery w c =
     (case devlist c of
        None \<Rightarrow> (Inl AttributeError, c)
      | Some path \<Rightarrow>
          (case open_file w path of
             Some ex \<Rightarrow> (Inl AttributeError, cemit (OpenFile path) c)
           | None \<Rightarrow>
               (let c1 = cemit (LoadYaml path) (cemit (OpenFile path) c) in
                case load_yaml w path of
                  Inl ex \<Rightarrow> (Inr False, clog Error ''Failed to parse content'' c1)
                | Inr YNull \<Rightarrow> (Inl TypeError, c1)
                | Inr (YMap None groups) \<Rightarrow>
                    (Inr False, clog Error ''Manual discovery file is missing bulbs section'' c1)
                | Inr (YMap (Some bulbs) groups) \<Rightarrow>
                    (let (bulbs', c2) = manual_bulbs bulbs c1;
                         c3 = setDriver_GV0 c2
                     in case groups of
                          None \<Rightarrow>
                            (Inr True, clog Info ''Manual discovery file is missing groups section'' c3)
                        | Some gs \<Rightarrow>
                            (case manual_groups gs bulbs' c3 of
                               (Some e, c4) \<Rightarrow> (Inl e, c4)
                             | (None, c4) \<Rightarrow> (Inr True, c4))))))"

text \<open>The body of the loop over the devices found on the LAN, and the loop.\<close>

definition auto_device :: "world \<Rightarrow> found \<Rightarrow> controller \<Rightarrow> controller outcome" where
  "auto_device w d c =
     (case f_label d of
        Inl e \<Rightarrow> Raised e (cemit (GetLabel (f_mac d)) c)
      | Inr label \<Rightarrow>
          (let c1 = cemit (GetLabel (f_mac d)) c;
               name = ''LIFX '' @ label;
               address = mac_address (f_mac d)
           in andThen
                (if nodes c1 address = None then
                   (let c2 = cemit (SupportsMultizone (f_mac d)) (c1\<lparr>bulbs_found := bulbs_found c1 + 1\<rparr>)
                    in case f_multizone d of
                         Inl e \<Rightarrow> Raised e c2
                       | Inr mz \<Rightarrow>
                           if mz
                           then Returned (addNode address (CMultiZone, name)
                                            (clog Info ''Found MultiZone Bulb'' c2))
                           else Returned (addNode address (CLight, name)
                                            (clog Info ''Found Bulb'' c2)))
                 else Returned c1)
                (\<lambda>c. let c3 = cemit (GetGroupTuple (f_mac d)) c in
                      case f_group d of
                        Inl e \<Rightarrow> Raised e c3
                      | Inr glabel \<Rightarrow>
                          if nodes c3 (group_address glabel) = None then
                            (let c4 = cemit (GetDevicesByGroup glabel)
                                        (clog Info ''Found LiFX Group'' c3)
                             in case get_devices_by_group w glabel of
                                  Some e \<Rightarrow> Raised e c4
                                | None \<Rightarrow>
                                    Returned (addNode (group_address glabel)
                                                (CGroup, ''LIFX Group '' @ glabel) c4))
                          else Returned c3)))"

fun auto_devices :: "world \<Rightarrow> found list \<Rightarrow> controller \<Rightarrow> controller outcome" where
  "auto_devices w [] c = Returned c"
| "auto_devices w (d # ds) c =
     (case auto_device w d c of
        Raised e c' \<Rightarrow> Raised e c'
      | Returned c' \<Rightarrow> auto_devices w ds c')"

text \<open>
  \<^verbatim>\<open>Controller._discovery_process\<close> from its \<^verbatim>\<open>try:\<close> on: enumeration of the LAN, then the
  bulb count. \<^verbatim>\<open>IOError\<close> is Python 3's \<^verbatim>\<open>OSError\<close>.
\<close>

definition automatic_discovery :: "world \<Rightarrow> controller \<Rightarrow> controller outcome" where
  "automatic_discovery w c =
     andThen
       (case (case get_lights w of
                Inl e \<Rightarrow> Raised e (cemit GetLights c)
              | Inr devices \<Rightarrow>
                  auto_devices w devices
                    (clog Info ''bulbs found. Checking status and adding to ISY if necessary.''
                       (cemit GetLights c))) of
          Returned c1 \<Rightarrow> Returned c1
        | Raised e c1 \<Rightarrow>
            if e = WorkflowException \<or> e = OSError \<or> e = TypeError
            then Returned (clog Error ''discovery Error'' c1)
            else Raised e c1)
       (\<lambda>c. let c1 = c\<lparr>update_nodes := False\<rparr>;
                 c2 = (case GV0 c1 of
                         None \<Rightarrow> c1
                       | Some old_bulbs_found \<Rightarrow>
                           if bulbs_found c1 \<noteq> old_bulbs_found
                           then clog Info ''NOTICE: Bulb count is different'' c1
                           else c1)
             in Returned (clog Info ''LiFX Discovery thread is complete.'' (setDriver_GV0 c2)))"

text \<open>\<^verbatim>\<open>Controller._discovery_process\<close>; a non-empty string is what Python takes as true.\<close>

definition discovery_process :: "world \<Rightarrow> controller \<Rightarrow> controller outcome" where
  "discovery_process w c0 =
     (let c1 = clog Info ''Starting LiFX Discovery thread...'' c0 in
      if devlist c1 \<noteq> None \<and> devlist c1 \<noteq> Some [] then
        (case manual_discovery w (clog Info ''Attempting manual discovery...'' c1) of
           (Inl e, c2) \<Rightarrow> Raised e c2
         | (Inr ok, c2) \<Rightarrow>
             if ok then Returned (clog Info ''Manual discovery is complete'' c2)
             else automatic_discovery w (clog Error ''Manual discovery failed'' c2))
      else automatic_discovery w c1)"

subsection \<open>Polling\<close>

text \<open>
  \<^verbatim>\<open>Controller.poll\<close> calls \<^verbatim>\<open>update\<close> of every node at each short poll, and the next
  poll comes whether or not the last one raised: \<open>n\<close> short polls of one node.
\<close>

definition Light_polls :: "device \<Rightarrow> nat \<Rightarrow> int light \<Rightarrow> int light" where
  "Light_polls dev n = (\<lambda>s. state_of (Light_update dev s)) ^^ n"

definition MultiZone_polls :: "device \<Rightarrow> nat \<Rightarrow> multizone \<Rightarrow> multizone" where
  "MultiZone_polls dev n = (\<lambda>s. state_of (MultiZone_update dev s)) ^^ n"

text \<open>
  The value of the local variable \<^verbatim>\<open>power_now\<close> in the run of \<^verbatim>\<open>update\<close> from a state:
  \<open>None\<close> when the run does not get to assign it, because the power query raises or
  because the run has ended before it. \<^verbatim>\<open>Light.update\<close> returns after a failed colour
  query; both methods are left by the IndexError of a colour with fewer than four entries
  (in \<^verbatim>\<open>MultiZone\<close> also of a cursor beyond the zones read).
\<close>

definition read_power :: "device \<Rightarrow> nat \<Rightarrow> bool option" where
  "read_power dev n = (case get_power dev n of Inl ex \<Rightarrow> None | Inr p \<Rightarrow> Some (p = 65535))"

definition Light_power_now :: "device \<Rightarrow> int light \<Rightarrow> bool option" where
  "Light_power_now dev s =
     (case get_color dev (tick s) of
        Inl ex \<Rightarrow> None
      | Inr c \<Rightarrow> if length c < 4 then None else read_power dev (Suc (tick s)))"

definition MultiZone_power_now :: "device \<Rightarrow> multizone \<Rightarrow> bool option" where
  "MultiZone_power_now dev s =
     (if pending s then read_power dev (tick s)
      else
        case get_color_zones dev (tick s) of
          Inl ex \<Rightarrow> read_power dev (Suc (tick s))
        | Inr c \<Rightarrow>
            (case item c (zone_index (current_zone s)) of
               None \<Rightarrow> None
             | Some zc \<Rightarrow> if length zc < 4 then None else read_power dev (Suc (tick s))))"

text \<open>The report a refresh owes: none without a fresh value or when it agrees with the mirror.\<close>

definition notification :: "bool \<Rightarrow> bool option \<Rightarrow> event list" where
  "notification mirror fresh =
     (case fresh of
        None \<Rightarrow> []
      | Some power_now \<Rightarrow>
          if mirror \<noteq> power_now then [ReportCmd (if power_now then ''DON'' else ''DOF'')]
          else [])"

subsection \<open>Properties of the trace\<close>

text \<open>
  A colour write of a bulb carries a brightness within \<open>[BR_MIN, BR_MAX]\<close>; every other
  event passes.
\<close>

fun brightness_in_range :: "event \<Rightarrow> bool" where
  "brightness_in_range (Call (SetColor c d)) =
     (case item c 2 of None \<Rightarrow> False | Some b \<Rightarrow> BR_MIN \<le> b \<and> b \<le> BR_MAX)"
| "brightness_in_range e = True"

text \<open>The colour writes of a tile chain.\<close>

fun is_tile_write :: "event \<Rightarrow> bool" where
  "is_tile_write (Call (SetTilechainColors c d)) = True"
| "is_tile_write e = False"

text \<open>Every colour write recorded so far is in range.\<close>

abbreviation clamped :: "('c, 'z) light_scheme \<Rightarrow> bool" where
  "clamped s \<equiv> list_all brightness_in_range (trace s)"

subsection \<open>Concrete states and devices for the examples\<close>

text \<open>A bulb that answers every read and accepts every write.\<close>

definition reachable_device :: device where
  "reachable_device =
     \<lparr>get_color = (\<lambda>n. Inr [0, 0, 30000, 3500]),
      get_power = (\<lambda>n. Inr 65535),
      get_color_zones = (\<lambda>n. Inr [[0, 0, 30000, 3500], [100, 0, 30000, 3500],
                                    [200, 0, 30000, 3500], [300, 0, 30000, 3500]]),
      get_tilechain_colors = (\<lambda>n. Inr [[[0, 0, 30000, 3500], [10, 0, 30000, 3500]]]),
      do_write = (\<lambda>n c. None)\<rparr>"

text \<open>A bulb whose mirror says: on, connected, brightness \<open>b\<close>.\<close>

definition lit_bulb :: "int \<Rightarrow> int light" where
  "lit_bulb b =
     \<lparr>name = ''Lamp'', address = ''d073d5000001'', power = True, connected = 1,
      color = [0, 0, b, 3500], duration = 0, change_pon = True, ignore_second_on = False,
      trace = [], tick = 0\<rparr>"

text \<open>A strip of four zones: on, connected, cursor on the whole device.\<close>

definition strip4 :: multizone where
  "strip4 =
     \<lparr>name = ''Strip'', address = ''d073d5000002'', power = True, connected = 1,
      color = [[0, 0, 30000, 3500], [100, 0, 30000, 3500],
               [200, 0, 30000, 3500], [300, 0, 30000, 3500]],
      duration = 0, change_pon = True, ignore_second_on = False, trace = [], tick = 0,
      num_zones = 4, current_zone = 0, pending = False\<rparr>"

text \<open>
  A strip as \<^verbatim>\<open>__init__\<close> leaves it, with the cursor that \<^verbatim>\<open>start\<close> restores from the
  driver \<^verbatim>\<open>GV4\<close>, and a device that answers the power query but not the zone query.
\<close>

definition fresh_strip :: "int \<Rightarrow> multizone" where
  "fresh_strip cursor =
     \<lparr>name = ''Strip'', address = ''d073d5000002'', power = False, connected = 1,
      color = [], duration = 0, change_pon = True, ignore_second_on = False,
      trace = [], tick = 0, num_zones = 0, current_zone = cursor, pending = False\<rparr>"

definition zones_unreachable_device :: device where
  "zones_unreachable_device = reachable_device\<lparr>get_color_zones := (\<lambda>n. Inl WorkflowException)\<rparr>"

text \<open>The same bulb after a failed colour read: its connectivity flag is 0.\<close>

definition dark_bulb :: "int light" where
  "dark_bulb = (lit_bulb 30000)\<lparr>connected := 0\<rparr>"

text \<open>A tile chain with nothing saved and the morph effect running.\<close>

definition morphing_tile :: tile where
  "morphing_tile =
     \<lparr>name = ''Tile'', address = ''d073d5000003'', power = True, connected = 1,
      color = [0, 0, 30000, 3500], duration = 250, change_pon = True,
      ignore_second_on = False, trace = [], tick = 0,
      tile_count = 1, effect = 1, saved_tile_colors = None\<rparr>"

text \<open>
  A controller with a device list configured and no node yet, one bulb on the LAN, and a
  device list file that parses to a mapping without a \<^verbatim>\<open>bulbs\<close> section.
\<close>

definition idle_controller :: controller where
  "idle_controller =
     \<lparr>devlist = Some ''devices.yaml'', bulbs_found = 0, update_nodes = False, GV0 = Some 0,
      nodes = Map.empty, ctrace = []\<rparr>"

definition lamp :: found where
  "lamp = \<lparr>f_mac = ''d0:73:d5:00:00:01'', f_label = Inr ''Lamp'', f_multizone = Inr False,
            f_group = Inr ''den''\<rparr>"

definition no_bulbs_world :: world where
  "no_bulbs_world =
     \<lparr>open_file = (\<lambda>p. None), load_yaml = (\<lambda>p. Inr (YMap None None)),
      get_lights = Inr [lamp], get_devices_by_group = (\<lambda>g. None)\<rparr>"

section \<open>Properties\<close>

lemmas constants = BR_INCREMENT_def BR_MIN_def BR_MAX_def FADE_INTERVAL_def BRTDIM_INTERVAL_def

lemmas effects = emit_def log_def setDriver_def reportCmd_def issue_def

lemma item_2: "item xs 2 = (if 2 < length xs then Some (xs ! 2) else None)"
  by (auto simp: item_def Let_def)

lemma setitem_2: "setitem xs 2 v = (if 2 < length xs then Some (xs[2 := v]) else None)"
  by (auto simp: setitem_def Let_def)

subsection \<open>Dim and brighten\<close>

lemma dim_mirror:
  assumes "item (color s) 2 = Some b"
  shows "color (state_of (dim dev s)) = (color s)[2 := max BR_MIN (b - BR_INCREMENT)]"
    and "power (state_of (dim dev s)) = power s"
  using assms
  by (auto simp: dim_def Let_def item_2 setitem_2 assign_color_def try_write_def try_call_def
      setDriver_ST_bri_def setDriver_color_def effects max_def
      split: if_splits option.splits)

lemma brighten_mirror:
  assumes "power s" "item (color s) 2 = Some b"
  shows "color (state_of (brighten dev s)) = (color s)[2 := min BR_MAX (b + BR_INCREMENT)]"
    and "power (state_of (brighten dev s)) = power s"
  using assms
  by (auto simp: brighten_def Let_def item_2 setitem_2 assign_color_def try_write_def try_call_def
      setDriver_ST_bri_def setDriver_color_def effects min_def
      split: if_splits option.splits)

text \<open>
  Claim C8. For a bulb that is on and whose mirrored brightness \<open>b\<close> satisfies
  \<open>BR_MIN \<le> b - BR_INCREMENT\<close> and \<open>b \<le> BR_MAX\<close> (so that neither step is clamped),
  \<^verbatim>\<open>dim\<close> followed by \<^verbatim>\<open>brighten\<close> leaves the mirrored brightness, and the whole mirrored
  colour, as it was; this holds whatever the device answers to the two writes.
\<close>

theorem dim_then_brighten_restores:
  assumes "power s" and "item (color s) 2 = Some b"
    and "BR_MIN \<le> b - BR_INCREMENT" and "b \<le> BR_MAX"
  shows "item (color (state_of (brighten dev (state_of (dim dev s))))) 2 = Some b
         \<and> color (state_of (brighten dev (state_of (dim dev s)))) = color s"
proof -
  let ?s1 = "state_of (dim dev s)"
  have len: "2 < length (color s)" and b: "color s ! 2 = b"
    using assms(2) by (auto simp: item_2 split: if_splits)
  have c1: "color ?s1 = (color s)[2 := b - BR_INCREMENT]" and p1: "power ?s1"
    using dim_mirror[OF assms(2), of dev] assms(1,3) by (simp_all add: max_def)
  have i1: "item (color ?s1) 2 = Some (b - BR_INCREMENT)"
    using len by (simp add: c1 item_2)
  have "color (state_of (brighten dev ?s1)) = (color ?s1)[2 := b]"
    using brighten_mirror(1)[OF p1 i1, of dev] assms(4) by (simp add: min_def)
  then have "color (state_of (brighten dev ?s1)) = color s"
    using b by (simp add: c1) (metis list_update_id)
  then show ?thesis using assms(2) by simp
qed

theorem dim_then_brighten_restores_witness:
  "power (lit_bulb 30000) \<and> item (color (lit_bulb 30000)) 2 = Some 30000
   \<and> BR_MIN \<le> 30000 - BR_INCREMENT \<and> (30000::int) \<le> BR_MAX
   \<and> item (color (state_of (brighten reachable_device
                                (state_of (dim reachable_device (lit_bulb 30000)))))) 2 = Some 30000
   \<and> color (state_of (brighten reachable_device
                         (state_of (dim reachable_device (lit_bulb 30000))))) = [0, 0, 30000, 3500]"
  using dim_then_brighten_restores[of "lit_bulb 30000" 30000 reachable_device]
  by (simp add: lit_bulb_def item_2 constants)

subsection \<open>MultiZone: the zone cursor\<close>

lemma item_nonneg:
  "0 \<le> i \<Longrightarrow> item xs i = (if nat i < length xs then Some (xs ! nat i) else None)"
  by (auto simp: item_def Let_def)

lemma setitem_nonneg:
  "0 \<le> i \<Longrightarrow> setitem xs i v = (if nat i < length xs then Some (xs[nat i := v]) else None)"
  by (auto simp: setitem_def Let_def)

lemma item_Some_nonneg:
  "0 \<le> i \<Longrightarrow> item xs i = Some y \<Longrightarrow> nat i < length xs \<and> y = xs ! nat i"
  by (auto simp: item_def Let_def split: if_splits)

lemma setitem_lit:
  "setitem xs 0 v = (if 0 < length xs then Some (xs[0 := v]) else None)"
  "setitem xs 1 v = (if 1 < length xs then Some (xs[1 := v]) else None)"
  "setitem xs 2 v = (if 2 < length xs then Some (xs[2 := v]) else None)"
  "setitem xs 3 v = (if 3 < length xs then Some (xs[3 := v]) else None)"
  by (auto simp: setitem_def Let_def)

text \<open>
  What a field command of \<^verbatim>\<open>MultiZone.setManual\<close> does on a connected strip whose cursor
  selects an existing zone with a full HSBK value: one device call, chosen by the cursor,
  and one entry of the zone array replaced.
\<close>

lemma MultiZone_setManual_field:
  assumes "connected s \<noteq> 0" and "0 \<le> zone_index (current_zone s)"
    and "item (color s) (zone_index (current_zone s)) = Some zc" and "4 \<le> length zc"
  shows "filter is_call (drop (length (trace s))
             (trace (state_of (MultiZone_setManual dev ''SETH'' (Some v) s))))
           = [Call (zone_write (current_zone s) (zc[0 := v]) (duration s))]
         \<and> color (state_of (MultiZone_setManual dev ''SETH'' (Some v) s))
           = (color s)[nat (zone_index (current_zone s)) := zc[0 := v]]
         \<and> current_zone (state_of (MultiZone_setManual dev ''SETH'' (Some v) s)) = current_zone s"
    and "filter is_call (drop (length (trace s))
             (trace (state_of (MultiZone_setManual dev ''SETS'' (Some v) s))))
           = [Call (zone_write (current_zone s) (zc[1 := v]) (duration s))]
         \<and> color (state_of (MultiZone_setManual dev ''SETS'' (Some v) s))
           = (color s)[nat (zone_index (current_zone s)) := zc[1 := v]]
         \<and> current_zone (state_of (MultiZone_setManual dev ''SETS'' (Some v) s)) = current_zone s"
    and "filter is_call (drop (length (trace s))
             (trace (state_of (MultiZone_setManual dev ''SETB'' (Some v) s))))
           = [Call (zone_write (current_zone s) (zc[2 := v]) (duration s))]
         \<and> color (state_of (MultiZone_setManual dev ''SETB'' (Some v) s))
           = (color s)[nat (zone_index (current_zone s)) := zc[2 := v]]
         \<and> current_zone (state_of (MultiZone_setManual dev ''SETB'' (Some v) s)) = current_zone s"
    and "filter is_call (drop (length (trace s))
             (trace (state_of (MultiZone_setManual dev ''CLITEMP'' (Some v) s))))
           = [Call (zone_write (current_zone s) (zc[3 := v]) (duration s))]
         \<and> color (state_of (MultiZone_setManual dev ''CLITEMP'' (Some v) s))
           = (color s)[nat (zone_index (current_zone s)) := zc[3 := v]]
         \<and> current_zone (state_of (MultiZone_setManual dev ''CLITEMP'' (Some v) s)) = current_zone s"
    and "filter is_call (drop (length (trace s))
             (trace (state_of (MultiZone_setManual dev ''RR'' (Some v) s))))
           = [Call (zone_write (current_zone s) (zc) (v))]
         \<and> color (state_of (MultiZone_setManual dev ''RR'' (Some v) s))
           = (color s)[nat (zone_index (current_zone s)) := zc]
         \<and> current_zone (state_of (MultiZone_setManual dev ''RR'' (Some v) s)) = current_zone s"
proof -
  have si: "\<And>w. setitem (color s) (zone_index (current_zone s)) w
              = Some ((color s)[nat (zone_index (current_zone s)) := w])"
    using item_Some_nonneg[OF assms(2,3)] assms(2) by (simp add: setitem_nonneg)
  show "filter is_call (drop (length (trace s))
             (trace (state_of (MultiZone_setManual dev ''SETH'' (Some v) s))))
           = [Call (zone_write (current_zone s) (zc[0 := v]) (duration s))]
         \<and> color (state_of (MultiZone_setManual dev ''SETH'' (Some v) s))
           = (color s)[nat (zone_index (current_zone s)) := zc[0 := v]]
         \<and> current_zone (state_of (MultiZone_setManual dev ''SETH'' (Some v) s)) = current_zone s"
    and "filter is_call (drop (length (trace s))
             (trace (state_of (MultiZone_setManual dev ''SETS'' (Some v) s))))
           = [Call (zone_write (current_zone s) (zc[1 := v]) (duration s))]
         \<and> color (state_of (MultiZone_setManual dev ''SETS'' (Some v) s))
           = (color s)[nat (zone_index (current_zone s)) := zc[1 := v]]
         \<and> current_zone (state_of (MultiZone_setManual dev ''SETS'' (Some v) s)) = current_zone s"
    and "filter is_call (drop (length (trace s))
             (trace (state_of (MultiZone_setManual dev ''SETB'' (Some v) s))))
           = [Call (zone_write (current_zone s) (zc[2 := v]) (duration s))]
         \<and> color (state_of (MultiZone_setManual dev ''SETB'' (Some v) s))
           = (color s)[nat (zone_index (current_zone s)) := zc[2 := v]]
         \<and> current_zone (state_of (MultiZone_setManual dev ''SETB'' (Some v) s)) = current_zone s"
    and "filter is_call (drop (length (trace s))
             (trace (state_of (MultiZone_setManual dev ''CLITEMP'' (Some v) s))))
           = [Call (zone_write (current_zone s) (zc[3 := v]) (duration s))]
         \<and> color (state_of (MultiZone_setManual dev ''CLITEMP'' (Some v) s))
           = (color s)[nat (zone_index (current_zone s)) := zc[3 := v]]
         \<and> current_zone (state_of (MultiZone_setManual dev ''CLITEMP'' (Some v) s)) = current_zone s"
    and "filter is_call (drop (length (trace s))
             (trace (state_of (MultiZone_setManual dev ''RR'' (Some v) s))))
           = [Call (zone_write (current_zone s) (zc) (v))]
         \<and> color (state_of (MultiZone_setManual dev ''RR'' (Some v) s))
           = (color s)[nat (zone_index (current_zone s)) := zc]
         \<and> current_zone (state_of (MultiZone_setManual dev ''RR'' (Some v) s)) = current_zone s"
    unfolding MultiZone_setManual_def move_cursor_def edit_field_def report_field_def
    using assms(1,3,4)
    by (auto simp: Let_def si setitem_lit try_call_def effects split: option.splits)
qed

lemma MultiZone_setManual_SETZ:
  assumes "connected s \<noteq> 0" and "0 \<le> v"
    and "v \<le> int (num_zones s)" and "item (color s) (zone_index v) = Some zc"
  shows "color (state_of (MultiZone_setManual dev ''SETZ'' (Some v) s)) = color s"
    and "current_zone (state_of (MultiZone_setManual dev ''SETZ'' (Some v) s)) = v"
    and "connected (state_of (MultiZone_setManual dev ''SETZ'' (Some v) s)) = connected s"
    and "duration (state_of (MultiZone_setManual dev ''SETZ'' (Some v) s)) = duration s"
    and "filter is_call (drop (length (trace s))
           (trace (state_of (MultiZone_setManual dev ''SETZ'' (Some v) s))))
         = [Call (zone_write v zc (duration s))]"
proof -
  have nn: "0 \<le> zone_index v"
    using assms(2) by (simp add: zone_index_def)
  have si: "setitem (color s) (zone_index v) zc = Some (color s)"
    using item_Some_nonneg[OF nn assms(4)] nn by (simp add: setitem_nonneg)
  show "color (state_of (MultiZone_setManual dev ''SETZ'' (Some v) s)) = color s"
    and "current_zone (state_of (MultiZone_setManual dev ''SETZ'' (Some v) s)) = v"
    and "connected (state_of (MultiZone_setManual dev ''SETZ'' (Some v) s)) = connected s"
    and "duration (state_of (MultiZone_setManual dev ''SETZ'' (Some v) s)) = duration s"
    and "filter is_call (drop (length (trace s))
           (trace (state_of (MultiZone_setManual dev ''SETZ'' (Some v) s))))
         = [Call (zone_write v zc (duration s))]"
    unfolding MultiZone_setManual_def move_cursor_def edit_field_def report_field_def
    using assms(1,3,4)
    by (auto simp: Let_def si try_call_def effects split: option.splits)
qed

text \<open>
  Claim C4. The cursor \<open>z\<close> of a strip is translated by \<open>zone_index\<close>: 0 stays 0 and
  any \<open>z > 0\<close> becomes \<open>z - 1\<close>, which is injective on \<open>z > 0\<close> with inverse \<open>+ 1\<close>. A field
  command of \<^verbatim>\<open>setManual\<close> with cursor 0 issues one whole-device write
  (\<^verbatim>\<open>set_color\<close>) and with cursor \<open>z > 0\<close> one single-zone write
  (\<^verbatim>\<open>set_zone_color\<close>) on zone \<open>z - 1\<close>, and it replaces that entry of the mirrored zone
  array (entry 0 for cursor 0).
\<close>

theorem zone_index_mapping:
  assumes "connected s \<noteq> 0" and "0 \<le> current_zone s"
    and "cmd \<in> {''SETH'', ''SETS'', ''SETB'', ''CLITEMP'', ''RR''}"
    and "item (color s) (zone_index (current_zone s)) = Some zc" and "4 \<le> length zc"
  shows "(let s' = state_of (MultiZone_setManual dev cmd (Some v) s);
              calls = filter is_call (drop (length (trace s)) (trace s'));
              z = current_zone s
          in (z = 0 \<longrightarrow> (\<exists>nc d. calls = [Call (SetColor nc d)] \<and> color s' = (color s)[0 := nc]))
           \<and> (0 < z \<longrightarrow> (\<exists>nc d. calls = [Call (SetZoneColor (z - 1) (z - 1) nc d)]
                               \<and> color s' = (color s)[nat (z - 1) := nc])))
         \<and> zone_index 0 = 0 \<and> (\<forall>z>0. zone_index z = z - 1)
         \<and> inj_on zone_index {z. 0 < z} \<and> (\<forall>z>0. zone_index z + 1 = z)"
proof -
  have nn: "0 \<le> zone_index (current_zone s)"
    using assms(2) by (simp add: zone_index_def)
  note field = MultiZone_setManual_field[OF assms(1) nn assms(4,5), of dev v]
  have "\<exists>nc d. filter is_call (drop (length (trace s))
                  (trace (state_of (MultiZone_setManual dev cmd (Some v) s))))
                = [Call (zone_write (current_zone s) nc d)]
              \<and> color (state_of (MultiZone_setManual dev cmd (Some v) s))
                = (color s)[nat (zone_index (current_zone s)) := nc]"
    using assms(3) field by blast
  then have "let s' = state_of (MultiZone_setManual dev cmd (Some v) s);
              calls = filter is_call (drop (length (trace s)) (trace s'));
              z = current_zone s
          in (z = 0 \<longrightarrow> (\<exists>nc d. calls = [Call (SetColor nc d)] \<and> color s' = (color s)[0 := nc]))
           \<and> (0 < z \<longrightarrow> (\<exists>nc d. calls = [Call (SetZoneColor (z - 1) (z - 1) nc d)]
                               \<and> color s' = (color s)[nat (z - 1) := nc]))"
    by (auto simp: Let_def zone_write_def zone_index_def)
  moreover have "zone_index 0 = 0 \<and> (\<forall>z>0. zone_index z = z - 1)
         \<and> inj_on zone_index {z. 0 < z} \<and> (\<forall>z>0. zone_index z + 1 = z)"
    by (auto simp: zone_index_def inj_on_def)
  ultimately show ?thesis by blast
qed

theorem zone_index_mapping_witness:
  "connected (strip4\<lparr>current_zone := 3\<rparr>) \<noteq> 0 \<and> 0 \<le> current_zone (strip4\<lparr>current_zone := 3\<rparr>)
   \<and> ''SETB'' \<in> {''SETH'', ''SETS'', ''SETB'', ''CLITEMP'', ''RR''}
   \<and> item (color (strip4\<lparr>current_zone := 3\<rparr>)) (zone_index 3) = Some [200, 0, 30000, 3500]
   \<and> 4 \<le> length [200, 0, 30000, 3500 :: int]
   \<and> (\<exists>nc d. filter is_call
                 (trace (state_of (MultiZone_setManual reachable_device ''SETB'' (Some 5)
                                     (strip4\<lparr>current_zone := 3\<rparr>))))
               = [Call (SetZoneColor 2 2 nc d)])
   \<and> inj_on zone_index {z. 0 < z}"
  using zone_index_mapping[of "strip4\<lparr>current_zone := 3\<rparr>" "''SETB''" "[200, 0, 30000, 3500]"
                            reachable_device 5]
  by (simp add: strip4_def item_def zone_index_def Let_def, blast)

text \<open>
  Claim C5. On a connected strip with four zones, \<^verbatim>\<open>SETZ\<close> = 3 leaves the cursor at 3 and
  the zone array as it was, and the following \<^verbatim>\<open>SETB\<close> = 40000 replaces the brightness of
  internal zone 2 only: zones 0, 1 and 3 of the mirror are unchanged, and the one device
  call it issues is the single-zone write \<^verbatim>\<open>set_zone_color(2, 2, ...)\<close> of that colour.
\<close>

theorem setz_then_setb_rewrites_one_zone:
  assumes "connected s \<noteq> 0" and "num_zones s = 4" and "length (color s) = 4"
    and "4 \<le> length (color s ! 2)"
  shows "let s1 = state_of (MultiZone_setManual dev ''SETZ'' (Some 3) s);
             s2 = state_of (MultiZone_setManual dev ''SETB'' (Some 40000) s1)
         in current_zone s1 = 3
          \<and> color s1 = color s
          \<and> color s2 = (color s)[2 := (color s ! 2)[2 := 40000]]
          \<and> color s2 ! 0 = color s ! 0 \<and> color s2 ! 1 = color s ! 1 \<and> color s2 ! 3 = color s ! 3
          \<and> filter is_call (drop (length (trace s1)) (trace s2))
              = [Call (SetZoneColor 2 2 ((color s ! 2)[2 := 40000]) (duration s))]"
proof -
  let ?s1 = "state_of (MultiZone_setManual dev ''SETZ'' (Some 3) s)"
  have z: "item (color s) (zone_index 3) = Some (color s ! 2)"
    using assms(3) by (simp add: zone_index_def item_def)
  have s1: "color ?s1 = color s" "current_zone ?s1 = 3" "connected ?s1 = connected s"
    "duration ?s1 = duration s"
    using MultiZone_setManual_SETZ(1-4)[OF assms(1) _ _ z, of dev] assms(2) by simp_all
  have i1: "item (color ?s1) (zone_index (current_zone ?s1)) = Some (color s ! 2)"
    using assms(3) by (simp add: s1 item_def zone_index_def)
  have c1: "connected ?s1 \<noteq> 0" "0 \<le> zone_index (current_zone ?s1)"
    using assms(1) by (simp_all add: s1 zone_index_def)
  note setb = MultiZone_setManual_field(3)[OF c1 i1 assms(4), of dev 40000]
  show ?thesis
    using setb by (simp add: s1 Let_def zone_index_def zone_write_def)
qed


theorem setz_then_setb_rewrites_one_zone_witness:
  "connected strip4 \<noteq> 0 \<and> num_zones strip4 = 4 \<and> length (color strip4) = 4
   \<and> 4 \<le> length (color strip4 ! 2)
   \<and> color (state_of (MultiZone_setManual reachable_device ''SETB'' (Some 40000)
               (state_of (MultiZone_setManual reachable_device ''SETZ'' (Some 3) strip4))))
      = [[0, 0, 30000, 3500], [100, 0, 30000, 3500], [200, 0, 40000, 3500], [300, 0, 30000, 3500]]"
  using setz_then_setb_rewrites_one_zone[of strip4 reachable_device]
  by (simp add: strip4_def Let_def)

subsection \<open>MultiZone: the range of the cursor\<close>

lemma cursor_andThen:
  "(\<And>t. current_zone (state_of (f t)) = current_zone t
         \<and> num_zones (state_of (f t)) = num_zones t) \<Longrightarrow>
   current_zone (state_of (andThen x f)) = current_zone (state_of x)
   \<and> num_zones (state_of (andThen x f)) = num_zones (state_of x)"
  by (cases x) auto

lemma cursor_try_call:
  "(\<And>t. current_zone (state_of (h t)) = current_zone t
         \<and> num_zones (state_of (h t)) = num_zones t) \<Longrightarrow>
   (\<And>t. current_zone (state_of (k t)) = current_zone t
         \<and> num_zones (state_of (k t)) = num_zones t) \<Longrightarrow>
   current_zone (state_of (try_call dev caught c s h k)) = current_zone s
   \<and> num_zones (state_of (try_call dev caught c s h k)) = num_zones s"
  by (simp add: try_call_def effects split: option.splits)

lemma cursor_report_field:
  "current_zone (state_of (report_field cmd v s)) = current_zone s
   \<and> num_zones (state_of (report_field cmd v s)) = num_zones s"
  by (simp add: report_field_def effects)

lemma cursor_move_cursor:
  "current_zone (move_cursor cmd v s)
     = (if cmd = ''SETZ'' then (if v > int (num_zones s) then 0 else v) else current_zone s)"
  "num_zones (move_cursor cmd v s) = num_zones s"
  by (simp_all add: move_cursor_def Let_def)

lemma cursor_write_and_report:
  fixes t :: multizone
  shows "current_zone (state_of (andThen
             (try_call dev (\<lambda>e. e = WorkflowException \<or> e = TypeError) c t
                (\<lambda>s. Returned (log Error ''setmanual mz error'' s)) Returned)
             (\<lambda>s. report_field m w
                     (log Info ''Received manual change, updating the mz bulb zone'' s))))
           = current_zone t
         \<and> num_zones (state_of (andThen
             (try_call dev (\<lambda>e. e = WorkflowException \<or> e = TypeError) c t
                (\<lambda>s. Returned (log Error ''setmanual mz error'' s)) Returned)
             (\<lambda>s. report_field m w
                     (log Info ''Received manual change, updating the mz bulb zone'' s))))
           = num_zones t"
proof -
  have a: "\<And>u::multizone. current_zone (state_of (report_field m w
              (log Info ''Received manual change, updating the mz bulb zone'' u))) = current_zone u
           \<and> num_zones (state_of (report_field m w
              (log Info ''Received manual change, updating the mz bulb zone'' u))) = num_zones u"
    by (simp add: cursor_report_field) (simp add: effects)
  have b: "current_zone (state_of (try_call dev (\<lambda>e. e = WorkflowException \<or> e = TypeError) c t
                (\<lambda>s. Returned (log Error ''setmanual mz error'' s)) Returned)) = current_zone t
       \<and> num_zones (state_of (try_call dev (\<lambda>e. e = WorkflowException \<or> e = TypeError) c t
                (\<lambda>s. Returned (log Error ''setmanual mz error'' s)) Returned)) = num_zones t"
    by (rule cursor_try_call) (simp_all add: effects)
  show ?thesis
    using cursor_andThen[of "\<lambda>s. report_field m w
                     (log Info ''Received manual change, updating the mz bulb zone'' s)", OF a] b
    by simp
qed

lemma MultiZone_setManual_cursor:
  "current_zone (state_of (MultiZone_setManual dev cmd val s))
     = (case val of
          None \<Rightarrow> current_zone s
        | Some v \<Rightarrow> if connected s \<noteq> 0 \<and> cmd = ''SETZ''
                     then (if v > int (num_zones s) then 0 else v) else current_zone s)
   \<and> num_zones (state_of (MultiZone_setManual dev cmd val s)) = num_zones s"
proof (cases "connected s \<noteq> 0")
  case False
  then show ?thesis
    by (simp add: MultiZone_setManual_def effects split: option.splits)
next
  case True
  show ?thesis
  proof (cases val)
    case None
    then show ?thesis using True by (simp add: MultiZone_setManual_def)
  next
    case (Some v)
    have "current_zone (state_of (MultiZone_setManual dev cmd val s))
            = current_zone (move_cursor cmd v s)
        \<and> num_zones (state_of (MultiZone_setManual dev cmd val s))
            = num_zones (move_cursor cmd v s)"
      unfolding MultiZone_setManual_def Some
      using True
      by (simp add: Let_def cursor_write_and_report split: option.splits)
    then show ?thesis using True Some by (simp add: cursor_move_cursor)
  qed
qed

lemma MultiZone_setManual_SETZ_returns:
  assumes "connected s \<noteq> 0" and "0 \<le> v"
    and "length (color s) = num_zones s" and "0 < num_zones s"
    and "\<forall>c e. do_write dev (tick s) c = Some e \<longrightarrow> e = WorkflowException \<or> e = TypeError"
  shows "\<exists>s'. MultiZone_setManual dev ''SETZ'' (Some v) s = Returned s'
            \<and> current_zone s' = (if int (num_zones s) < v then 0 else v)
            \<and> color s' = color s \<and> num_zones s' = num_zones s
            \<and> filter is_call (drop (length (trace s)) (trace s'))
                = [Call (zone_write (current_zone s')
                           (color s ! nat (zone_index (current_zone s'))) (duration s))]"
proof -
  define cz where "cz = (if int (num_zones s) < v then 0 else v)"
  define z where "z = zone_index cz"
  have z: "0 \<le> z" "nat z < length (color s)"
    using assms(2,3,4) by (auto simp: z_def cz_def zone_index_def)
  have it: "item (color s) z = Some (color s ! nat z)"
    using z by (simp add: item_nonneg)
  have si: "setitem (color s) z (color s ! nat z) = Some (color s)"
    using z by (simp add: setitem_nonneg)
  have mc: "move_cursor ''SETZ'' v s = s\<lparr>current_zone := cz\<rparr>"
    by (simp add: move_cursor_def cz_def Let_def)
  have w: "do_write dev (tick s) (zone_write cz (color s ! nat z) (duration s)) = None
         \<or> (\<exists>e. do_write dev (tick s) (zone_write cz (color s ! nat z) (duration s)) = Some e
                \<and> (e = WorkflowException \<or> e = TypeError))"
    using assms(5) by (cases "do_write dev (tick s) (zone_write cz (color s ! nat z) (duration s))") auto
  have "\<exists>s'. MultiZone_setManual dev ''SETZ'' (Some v) s = Returned s'
            \<and> current_zone s' = cz
            \<and> color s' = color s \<and> num_zones s' = num_zones s
            \<and> filter is_call (drop (length (trace s)) (trace s'))
                = [Call (zone_write cz (color s ! nat z) (duration s))]"
    unfolding MultiZone_setManual_def
    using assms(1) it si w
    by (auto simp: mc z_def[symmetric] Let_def edit_field_def report_field_def try_call_def
        effects)
  then show ?thesis
    unfolding cz_def z_def by auto
qed

text \<open>
  Claim C10, as amended. \<^verbatim>\<open>MultiZone.setManual\<close> keeps a cursor that is in
  \<open>[0, num_zones]\<close> in that range, provided the value of a \<^verbatim>\<open>SETZ\<close> command is not
  negative: on a connected strip \<^verbatim>\<open>SETZ\<close> stores its value when it is at most \<open>num_zones\<close>
  and 0 when it is larger, and every other case leaves the cursor and \<open>num_zones\<close> as
  they were. On a connected strip whose zone array has been read (it is not empty and
  \<open>num_zones\<close> is its length) and whose device raises nothing but what the handler
  catches, such a \<^verbatim>\<open>SETZ\<close> returns normally: an out-of-range value is not an error. It
  leaves the zone array as it was and issues one device call, the colour of the zone the
  new cursor selects, written back: after a reset to 0 that is the colour of zone 0, as a
  whole-device write. (A negative \<^verbatim>\<open>SETZ\<close> value is stored as it is, a cursor that was out
  of range stays so under the other commands, and on a strip whose zone array is empty the
  reset is followed by an uncaught IndexError: see the counterexample.)
\<close>

theorem setManual_cursor_in_range:
  assumes "0 \<le> current_zone s" and "current_zone s \<le> int (num_zones s)"
    and "cmd = ''SETZ'' \<longrightarrow> 0 \<le> v"
  shows "0 \<le> current_zone (state_of (MultiZone_setManual dev cmd (Some v) s))
       \<and> current_zone (state_of (MultiZone_setManual dev cmd (Some v) s))
           \<le> int (num_zones (state_of (MultiZone_setManual dev cmd (Some v) s)))
       \<and> (connected s \<noteq> 0 \<and> cmd = ''SETZ'' \<and> int (num_zones s) < v
            \<longrightarrow> current_zone (state_of (MultiZone_setManual dev cmd (Some v) s)) = 0)
       \<and> (connected s \<noteq> 0 \<and> cmd = ''SETZ'' \<and> v \<le> int (num_zones s)
            \<longrightarrow> current_zone (state_of (MultiZone_setManual dev cmd (Some v) s)) = v)
       \<and> (cmd \<noteq> ''SETZ''
            \<longrightarrow> current_zone (state_of (MultiZone_setManual dev cmd (Some v) s)) = current_zone s)
       \<and> (connected s \<noteq> 0 \<and> cmd = ''SETZ''
            \<and> length (color s) = num_zones s \<and> 0 < num_zones s
            \<and> (\<forall>c e. do_write dev (tick s) c = Some e \<longrightarrow> e = WorkflowException \<or> e = TypeError)
            \<longrightarrow> (\<exists>s'. MultiZone_setManual dev cmd (Some v) s = Returned s'
                   \<and> current_zone s' = (if int (num_zones s) < v then 0 else v)
                   \<and> color s' = color s \<and> num_zones s' = num_zones s
                   \<and> filter is_call (drop (length (trace s)) (trace s'))
                       = [Call (zone_write (current_zone s')
                                  (color s ! nat (zone_index (current_zone s'))) (duration s))]))"
proof -
  have range: "0 \<le> current_zone (state_of (MultiZone_setManual dev cmd (Some v) s))
       \<and> current_zone (state_of (MultiZone_setManual dev cmd (Some v) s))
           \<le> int (num_zones (state_of (MultiZone_setManual dev cmd (Some v) s)))
       \<and> (connected s \<noteq> 0 \<and> cmd = ''SETZ'' \<and> int (num_zones s) < v
            \<longrightarrow> current_zone (state_of (MultiZone_setManual dev cmd (Some v) s)) = 0)
       \<and> (connected s \<noteq> 0 \<and> cmd = ''SETZ'' \<and> v \<le> int (num_zones s)
            \<longrightarrow> current_zone (state_of (MultiZone_setManual dev cmd (Some v) s)) = v)
       \<and> (cmd \<noteq> ''SETZ''
            \<longrightarrow> current_zone (state_of (MultiZone_setManual dev cmd (Some v) s)) = current_zone s)"
    using assms MultiZone_setManual_cursor[of dev cmd "Some v" s]
    by auto
  have returns: "\<exists>s'. MultiZone_setManual dev cmd (Some v) s = Returned s'
                   \<and> current_zone s' = (if int (num_zones s) < v then 0 else v)
                   \<and> color s' = color s \<and> num_zones s' = num_zones s
                   \<and> filter is_call (drop (length (trace s)) (trace s'))
                       = [Call (zone_write (current_zone s')
                                  (color s ! nat (zone_index (current_zone s'))) (duration s))]"
    if h: "connected s \<noteq> 0 \<and> cmd = ''SETZ''
            \<and> length (color s) = num_zones s \<and> 0 < num_zones s
            \<and> (\<forall>c e. do_write dev (tick s) c = Some e \<longrightarrow> e = WorkflowException \<or> e = TypeError)"
  proof -
    have v: "0 \<le> v" using assms(3) h by simp
    have c: "cmd = ''SETZ''" using h by simp
    have a: "connected s \<noteq> 0" "length (color s) = num_zones s" "0 < num_zones s"
      "\<forall>c e. do_write dev (tick s) c = Some e \<longrightarrow> e = WorkflowException \<or> e = TypeError"
      using h by simp_all
    show ?thesis
      unfolding c by (rule MultiZone_setManual_SETZ_returns[OF a(1) v a(2) a(3) a(4)])
  qed
  show ?thesis
    using range returns by blast
qed

theorem setManual_cursor_in_range_witness:
  "0 \<le> current_zone strip4 \<and> current_zone strip4 \<le> int (num_zones strip4) \<and> (0::int) \<le> 9
   \<and> connected strip4 \<noteq> 0 \<and> int (num_zones strip4) < 9
   \<and> length (color strip4) = num_zones strip4 \<and> 0 < num_zones strip4
   \<and> do_write reachable_device = (\<lambda>n c. None)
   \<and> current_zone (state_of (MultiZone_setManual reachable_device ''SETZ'' (Some 9) strip4)) = 0
   \<and> (\<exists>s'. MultiZone_setManual reachable_device ''SETZ'' (Some 9) strip4 = Returned s'
          \<and> current_zone s' = 0 \<and> color s' = color strip4
          \<and> filter is_call (trace s') = [Call (SetColor [0, 0, 30000, 3500] 0)])"
proof -
  have a1: "0 \<le> current_zone strip4"
    and a2: "current_zone strip4 \<le> int (num_zones strip4)"
    and a3: "''SETZ'' = ''SETZ'' \<longrightarrow> (0::int) \<le> 9"
    by (simp_all add: strip4_def)
  note t = setManual_cursor_in_range[of strip4 "''SETZ''" 9 reachable_device, OF a1 a2 a3]
  have facts: "connected strip4 \<noteq> 0" "int (num_zones strip4) < 9"
    "length (color strip4) = num_zones strip4" "0 < num_zones strip4"
    "do_write reachable_device = (\<lambda>n c. None)"
    by (simp_all add: strip4_def reachable_device_def)
  have quiet: "\<forall>c e. do_write reachable_device (tick strip4) c = Some e
                 \<longrightarrow> e = WorkflowException \<or> e = TypeError"
    by (simp add: facts(5))
  have zero: "current_zone (state_of (MultiZone_setManual reachable_device ''SETZ'' (Some 9) strip4)) = 0"
    using t[THEN conjunct2, THEN conjunct2, THEN conjunct1] facts(1,2) by simp
  obtain s' where s': "MultiZone_setManual reachable_device ''SETZ'' (Some 9) strip4 = Returned s'"
    "current_zone s' = (if int (num_zones strip4) < 9 then 0 else 9)" "color s' = color strip4"
    "filter is_call (drop (length (trace strip4)) (trace s'))
       = [Call (zone_write (current_zone s')
                  (color strip4 ! nat (zone_index (current_zone s'))) (duration strip4))]"
    using t[THEN conjunct2, THEN conjunct2, THEN conjunct2, THEN conjunct2, THEN conjunct2]
      facts(1,3,4) quiet by auto
  have cz: "current_zone s' = 0" using s'(2) facts(2) by simp
  have calls: "filter is_call (trace s') = [Call (SetColor [0, 0, 30000, 3500] 0)]"
    using s'(4) unfolding cz by (simp add: strip4_def zone_write_def zone_index_def)
  show ?thesis
    using a1 a2 facts zero s'(1,3) cz calls by simp
qed

theorem cursor_out_of_range_counterexample:
  "\<not> (0 \<le> current_zone (state_of (MultiZone_setManual reachable_device ''SETZ'' (Some (- 1)) strip4)))
   \<and> connected (state_of (MultiZone_update zones_unreachable_device (fresh_strip 3))) = 1
   \<and> \<not> (current_zone
            (state_of (MultiZone_setManual zones_unreachable_device ''RR'' (Some 5)
               (state_of (MultiZone_update zones_unreachable_device (fresh_strip 3)))))
          \<le> int (num_zones
            (state_of (MultiZone_setManual zones_unreachable_device ''RR'' (Some 5)
               (state_of (MultiZone_update zones_unreachable_device (fresh_strip 3)))))))
   \<and> connected (fresh_strip 0) \<noteq> 0
   \<and> MultiZone_setManual reachable_device ''SETZ'' (Some 9) (fresh_strip 0)
       = Raised IndexError (fresh_strip 0)"
  by (simp add: MultiZone_setManual_def move_cursor_def edit_field_def report_field_def
      MultiZone_update_def MultiZone_update_power_def set_st_def
      strip4_def fresh_strip_def reachable_device_def zones_unreachable_device_def
      Let_def item_def setitem_def try_call_def effects zone_index_def zone_write_def)

subsection \<open>The connectivity flag\<close>

text \<open>
  Claim C2, as amended. \<^verbatim>\<open>Light.setColor\<close> and \<^verbatim>\<open>Light.setManual\<close> (the commands
  \<^verbatim>\<open>SET_COLOR\<close>, \<^verbatim>\<open>SETH\<close>, \<^verbatim>\<open>SETS\<close>, \<^verbatim>\<open>SETB\<close>, \<^verbatim>\<open>CLITEMP\<close> and \<^verbatim>\<open>RR\<close>) refuse while the
  connectivity flag is 0: they return with the object as it was but for one log line,
  and so without a device call. The other commands of a bulb do not read the flag.
\<close>

theorem disconnected_setters_refuse:
  assumes "connected s = 0"
  shows "setColor dev val s
           = Returned (s\<lparr>trace := trace s @
               [Log Error ''Received SetColor, however the bulb is in a disconnected state... ignoring'']\<rparr>)
       \<and> Light_setManual dev cmd val s
           = Returned (s\<lparr>trace := trace s @
               [Log Info ''Received manual change, however the bulb is in a disconnected state... ignoring'']\<rparr>)"
  using assms by (simp add: setColor_def Light_setManual_def effects)

theorem disconnected_setters_refuse_witness:
  "connected dark_bulb = 0
   \<and> trace (state_of (setColor reachable_device (Some 0) dark_bulb))
       = [Log Error ''Received SetColor, however the bulb is in a disconnected state... ignoring'']
   \<and> trace (state_of (Light_setManual reachable_device ''SETB'' (Some 40000) dark_bulb))
       = [Log Info ''Received manual change, however the bulb is in a disconnected state... ignoring'']
   \<and> color (state_of (Light_setManual reachable_device ''SETB'' (Some 40000) dark_bulb))
       = [0, 0, 30000, 3500]"
  using disconnected_setters_refuse[of dark_bulb reachable_device "Some 0" "''SETB''"]
        disconnected_setters_refuse[of dark_bulb reachable_device "Some 40000" "''SETB''"]
  by (simp add: dark_bulb_def lit_bulb_def)

lemmas light_commands =
  setOn_def setOn_plan_def setOff_def dim_def brighten_def turn_on_at_min_def fade_up_def
  fade_down_def fade_stop_def setHSBKD_def set_wf_def WAVEFORM_def power_on_change_def
  assign_color_def setDriver_color_def setDriver_ST_bri_def try_write_def try_call_def
  color_drivers_def scale_255_def float_overflow_def

theorem disconnected_commands_counterexample:
  "connected dark_bulb = 0
   \<and> trace (state_of (setOff reachable_device dark_bulb))
       = [Call (SetPower False), SetDriver ''ST'' (DInt 0)]
   \<and> power (state_of (setOff reachable_device dark_bulb)) \<noteq> power dark_bulb
   \<and> trace (state_of (setOn reachable_device ''DON'' None dark_bulb))
       = [Call (SetColor [0, 0, 65535, 3500] 0), SetDriver ''GV3'' (DInt 65535),
          Call (SetPower True), SetDriver ''ST'' (Percent 65535)]
   \<and> trace (state_of (dim reachable_device dark_bulb))
       = [Call (SetColor [0, 0, 27380, 3500] 400), SetDriver ''ST'' (Percent 27380),
          SetDriver ''GV3'' (DInt 27380)]
   \<and> trace (state_of (brighten reachable_device dark_bulb))
       = [Call (SetColor [0, 0, 32620, 3500] 400), SetDriver ''ST'' (Percent 32620),
          SetDriver ''GV3'' (DInt 32620)]
   \<and> trace (state_of (fade_up reachable_device dark_bulb))
       = [Call (SetColor [0, 0, 65535, 3500] 5000)]
   \<and> trace (state_of (fade_down reachable_device dark_bulb))
       = [Call (SetColor [0, 0, 1310, 3500] 5000)]
   \<and> trace (state_of (fade_stop reachable_device dark_bulb))
       = [Call GetColor, SetDriver ''GV1'' (DInt 0), SetDriver ''GV2'' (DInt 0),
          SetDriver ''GV3'' (DInt 30000), SetDriver ''CLITEMP'' (DInt 3500),
          Call (SetColor [0, 0, 30000, 3500] 0)]
   \<and> trace (state_of (setHSBKD reachable_device (\<lambda>k. Some 1) dark_bulb))
       = [Log Info ''Received manual change, updating the bulb'',
          Call (SetColor [1, 1, 1, 1] 1), SetDriver ''GV1'' (DInt 1),
          SetDriver ''GV2'' (DInt 1), SetDriver ''GV3'' (DInt 1),
          SetDriver ''CLITEMP'' (DInt 1), SetDriver ''RR'' (DInt 1)]
   \<and> trace (state_of (set_wf reachable_device (\<lambda>k. Some 1) dark_bulb))
       = [Log Debug ''Waveform Sine'', Call (SetWaveform 0 [1, 1, 1, 1] 1 1 1 1)]"
  by (simp add: light_commands dark_bulb_def lit_bulb_def reachable_device_def
      effects constants item_def setitem_def Let_def)

subsection \<open>Brightness writes\<close>

lemma setOn_plan_range:
  "setOn_plan cmd val s = Inr (Proceed (Some (nb, tr))) \<Longrightarrow> BR_MIN \<le> nb \<and> nb \<le> BR_MAX"
  by (auto simp: setOn_plan_def Let_def constants split: if_splits)

lemma clamped_power_write:
  "clamped s \<Longrightarrow>
   clamped (state_of (try_write dev (SetPower True) s
                        (\<lambda>s. Returned (log Error m s))
                        (\<lambda>s. setDriver_ST_bri (s\<lparr>power := True\<rparr>))))"
  by (auto simp: try_write_def try_call_def setDriver_ST_bri_def effects
      split: option.splits)

lemma clamped_setOn:
  assumes "clamped s"
  shows "clamped (state_of (setOn dev cmd val s))"
proof (cases "setOn_plan cmd val s")
  case (Inl e)
  then show ?thesis using assms by (simp add: setOn_def)
next
  case (Inr plan)
  show ?thesis
  proof (cases plan)
    case Ignore
    then show ?thesis using assms Inr by (simp add: setOn_def effects)
  next
    case (Proceed target)
    show ?thesis
    proof (cases target)
      case None
      then show ?thesis
        using assms Inr Proceed clamped_power_write[of s dev]
        by (simp add: setOn_def)
    next
      case (Some a)
      obtain nb tr where a: "a = (nb, tr)" by (cases a)
      have r: "BR_MIN \<le> nb \<and> nb \<le> BR_MAX"
        using setOn_plan_range Inr Proceed Some a by blast
      show ?thesis
        using assms Inr Proceed Some a r
        by (auto simp: setOn_def assign_color_def setitem_2 item_2 try_write_def try_call_def
            setDriver_ST_bri_def setDriver_color_def effects
            split: option.splits)
    qed
  qed
qed


lemma clamped_turn_on_at_min:
  "clamped s \<Longrightarrow> clamped (state_of (turn_on_at_min dev s))"
  by (auto simp: turn_on_at_min_def assign_color_def setitem_2 item_2 try_write_def try_call_def
      setDriver_ST_bri_def effects constants split: option.splits)

lemma clamped_fade_down:
  "clamped s \<Longrightarrow> clamped (state_of (fade_down dev s))"
  by (auto simp: fade_down_def assign_color_def setitem_2 item_2 try_write_def try_call_def
      effects constants split: option.splits)

lemma clamped_fade_up_on:
  "clamped s \<Longrightarrow>
   clamped (state_of (case item (color s) 2 of
               None \<Rightarrow> Raised IndexError s
             | Some b \<Rightarrow>
                 if b = BR_MAX then Returned (log Info ''Can not FadeUp, already at maximum'' s)
                 else andThen (assign_color 2 BR_MAX s)
                        (\<lambda>s. try_write dev (SetColor (color s) FADE_INTERVAL) s
                                (\<lambda>s. Returned (log Error ''Connection Error bulb Fade Up'' s))
                                Returned)))"
  by (auto simp: assign_color_def setitem_2 item_2 try_write_def try_call_def
      effects constants split: option.splits)

lemma clamped_fade_up:
  assumes "clamped s"
  shows "clamped (state_of (fade_up dev s))"
proof (cases "if \<not> power s then turn_on_at_min dev s else Returned s")
  case (Returned t)
  then have "clamped t"
    using assms clamped_turn_on_at_min[of s dev] by (auto split: if_splits)
  then show ?thesis
    using Returned clamped_fade_up_on[of t dev] by (simp add: fade_up_def)
next
  case (Raised e t)
  then have "clamped t"
    using assms clamped_turn_on_at_min[of s dev] by (auto split: if_splits)
  then show ?thesis using Raised by (simp add: fade_up_def)
qed

lemma clamped_dim:
  assumes "clamped s" and "\<forall>b. item (color s) 2 = Some b \<longrightarrow> 0 \<le> b \<and> b \<le> BR_MAX"
  shows "clamped (state_of (dim dev s))"
  using assms
  by (auto simp: dim_def Let_def assign_color_def setitem_2 item_2 try_write_def try_call_def
      setDriver_ST_bri_def setDriver_color_def effects constants split: option.splits if_splits)

lemma clamped_brighten:
  assumes "clamped s" and "\<forall>b. item (color s) 2 = Some b \<longrightarrow> 0 \<le> b \<and> b \<le> BR_MAX"
  shows "clamped (state_of (brighten dev s))"
proof (cases "power s")
  case False
  then show ?thesis using assms(1) clamped_turn_on_at_min[of s dev] by (simp add: brighten_def)
next
  case True
  then show ?thesis
    using assms
    by (auto simp: brighten_def Let_def assign_color_def setitem_2 item_2 try_write_def
        try_call_def setDriver_ST_bri_def setDriver_color_def effects constants
        split: option.splits if_splits)
qed

lemma setb_writes_value:
  assumes "connected s \<noteq> 0" and "2 < length (color s)"
  shows "Call (SetColor ((color s)[2 := v]) (duration s))
           \<in> set (trace (state_of (Light_setManual dev ''SETB'' (Some v) s)))"
  using assms
  by (auto simp: Light_setManual_def assign_color_def setitem_2 item_2 try_write_def
      try_call_def setDriver_color_def power_on_change_def setDriver_ST_bri_def effects Let_def
      split: option.splits)


text \<open>
  Claim C3, as amended. Every colour write issued by \<^verbatim>\<open>setOn\<close> (each of its variants),
  \<^verbatim>\<open>fade_up\<close> and \<^verbatim>\<open>fade_down\<close> carries a brightness within \<open>[BR_MIN, BR_MAX]\<close>, and so
  does every colour write of \<^verbatim>\<open>dim\<close> and \<^verbatim>\<open>brighten\<close> when the mirrored brightness is
  within \<open>[0, BR_MAX]\<close>: a trace whose colour writes are all in range stays so. The single
  field setter \<^verbatim>\<open>SETB\<close> does not clamp: on a connected bulb it writes the colour with the
  brightness it was given.
\<close>

theorem brightness_writes_clamped:
  assumes "clamped s"
  shows "clamped (state_of (setOn dev cmd val s))
       \<and> clamped (state_of (fade_up dev s))
       \<and> clamped (state_of (fade_down dev s))
       \<and> ((\<forall>b. item (color s) 2 = Some b \<longrightarrow> 0 \<le> b \<and> b \<le> BR_MAX)
            \<longrightarrow> clamped (state_of (dim dev s)) \<and> clamped (state_of (brighten dev s)))
       \<and> (connected s \<noteq> 0 \<and> 2 < length (color s)
            \<longrightarrow> Call (SetColor ((color s)[2 := v]) (duration s))
                  \<in> set (trace (state_of (Light_setManual dev ''SETB'' (Some v) s))))"
  using assms clamped_setOn clamped_fade_up clamped_fade_down clamped_dim clamped_brighten
    setb_writes_value
  by blast

theorem brightness_writes_clamped_witness:
  "clamped (lit_bulb 30000)
   \<and> item (color (lit_bulb 30000)) 2 = Some 30000 \<and> (0::int) \<le> 30000 \<and> 30000 \<le> BR_MAX
   \<and> connected (lit_bulb 30000) \<noteq> 0 \<and> 2 < length (color (lit_bulb 30000))
   \<and> clamped (state_of (setOn reachable_device ''DON'' (Some 255) (lit_bulb 30000)))
   \<and> clamped (state_of (fade_up reachable_device (lit_bulb 30000)))
   \<and> clamped (state_of (fade_down reachable_device (lit_bulb 30000)))
   \<and> clamped (state_of (dim reachable_device (lit_bulb 30000)))
   \<and> clamped (state_of (brighten reachable_device (lit_bulb 30000)))
   \<and> Call (SetColor [0, 0, 70000, 3500] 0)
       \<in> set (trace (state_of (Light_setManual reachable_device ''SETB'' (Some 70000)
                                  (lit_bulb 30000))))"
  using brightness_writes_clamped[of "lit_bulb 30000" reachable_device "''DON''" "Some 255" 70000]
  by (simp add: lit_bulb_def item_2 constants)

theorem setb_unclamped_counterexample:
  "connected (lit_bulb 30000) \<noteq> 0
   \<and> trace (state_of (Light_setManual reachable_device ''SETB'' (Some 0) (lit_bulb 30000)))
       = [Call (SetColor [0, 0, 0, 3500] 0),
          Log Info ''Received manual change, updating the bulb'',
          SetDriver ''GV3'' (DInt 0)]
   \<and> \<not> brightness_in_range (Call (SetColor [0, 0, 0, 3500] 0))
   \<and> \<not> clamped (state_of (Light_setManual reachable_device ''SETB'' (Some 0) (lit_bulb 30000)))"
  by (simp add: Light_setManual_def light_commands lit_bulb_def reachable_device_def
      effects constants item_def setitem_def Let_def)

subsection \<open>Fades\<close>

text \<open>
  Claim C7, as amended. \<^verbatim>\<open>fade_down\<close> refuses (one log line, nothing else) when the
  mirror says off, or on with a brightness at or below \<open>BR_MIN\<close>; \<^verbatim>\<open>fade_up\<close> refuses so
  when the mirror says on with brightness \<open>BR_MAX\<close>; \<^verbatim>\<open>fade_stop\<close> refuses so when the
  mirror says off. When it says on, \<^verbatim>\<open>fade_stop\<close> first reads the colour from the device;
  if the brightness read is \<open>BR_MIN\<close> or \<open>BR_MAX\<close>, that read is its only device call, the
  mirror holds the colour read and the last thing it does is log the refusal.
\<close>

theorem fades_refuse:
  "(\<not> power s \<longrightarrow>
      fade_down dev s
        = Returned (s\<lparr>trace := trace s @ [Log Error ''can not FadeDown as it is currently off'']\<rparr>))
   \<and> (power s \<and> item (color s) 2 = Some b \<and> b \<le> BR_MIN \<longrightarrow>
      fade_down dev s
        = Returned (s\<lparr>trace := trace s @
                      [Log Error ''can not FadeDown as it is currently at minimum'']\<rparr>))
   \<and> (power s \<and> item (color s) 2 = Some BR_MAX \<longrightarrow>
      fade_up dev s
        = Returned (s\<lparr>trace := trace s @ [Log Info ''Can not FadeUp, already at maximum'']\<rparr>))
   \<and> (\<not> power s \<longrightarrow>
      fade_stop dev s
        = Returned (s\<lparr>trace := trace s @ [Log Error ''can not FadeStop as it is currently off'']\<rparr>))
   \<and> (power s \<and> get_color dev (tick s) = Inr c \<and> 4 \<le> length c
        \<and> (c ! 2 = BR_MIN \<or> c ! 2 = BR_MAX) \<longrightarrow>
      filter is_call (drop (length (trace s)) (trace (state_of (fade_stop dev s)))) = [Call GetColor]
      \<and> color (state_of (fade_stop dev s)) = c
      \<and> last (trace (state_of (fade_stop dev s)))
          = Log Error ''can not FadeStop as it is currently at limit'')"
proof -
  have stop: "power s \<and> get_color dev (tick s) = Inr c \<and> 4 \<le> length c
        \<and> (c ! 2 = BR_MIN \<or> c ! 2 = BR_MAX) \<longrightarrow>
      filter is_call (drop (length (trace s)) (trace (state_of (fade_stop dev s)))) = [Call GetColor]
      \<and> color (state_of (fade_stop dev s)) = c
      \<and> last (trace (state_of (fade_stop dev s)))
          = Log Error ''can not FadeStop as it is currently at limit''"
    by (auto simp: fade_stop_def color_drivers_def item_def effects)
  show ?thesis
    using stop
    by (simp add: fade_down_def fade_up_def fade_stop_def effects)
qed

theorem fades_refuse_witness:
  "\<not> power ((lit_bulb 30000)\<lparr>power := False\<rparr>)
   \<and> power (lit_bulb 1310) \<and> item (color (lit_bulb 1310)) 2 = Some 1310 \<and> 1310 \<le> BR_MIN
   \<and> power (lit_bulb 65535) \<and> item (color (lit_bulb 65535)) 2 = Some BR_MAX
   \<and> get_color (reachable_device\<lparr>get_color := (\<lambda>n. Inr [0, 0, 65535, 3500])\<rparr>)
        (tick (lit_bulb 65535)) = Inr [0, 0, 65535, 3500]
   \<and> 4 \<le> length [0, 0, 65535, 3500 :: int] \<and> [0, 0, 65535, 3500] ! 2 = BR_MAX
   \<and> trace (state_of (fade_down reachable_device ((lit_bulb 30000)\<lparr>power := False\<rparr>)))
       = [Log Error ''can not FadeDown as it is currently off'']
   \<and> trace (state_of (fade_stop reachable_device ((lit_bulb 30000)\<lparr>power := False\<rparr>)))
       = [Log Error ''can not FadeStop as it is currently off'']
   \<and> trace (state_of (fade_down reachable_device (lit_bulb 1310)))
       = [Log Error ''can not FadeDown as it is currently at minimum'']
   \<and> trace (state_of (fade_up reachable_device (lit_bulb 65535)))
       = [Log Info ''Can not FadeUp, already at maximum'']
   \<and> filter is_call
        (trace (state_of (fade_stop (reachable_device\<lparr>get_color := (\<lambda>n. Inr [0, 0, 65535, 3500])\<rparr>)
                            (lit_bulb 65535))))
       = [Call GetColor]"
  using fades_refuse[of "(lit_bulb 30000)\<lparr>power := False\<rparr>" reachable_device 0 "[]"]
        fades_refuse[of "lit_bulb 1310" reachable_device 1310 "[]"]
        fades_refuse[of "lit_bulb 65535"
                        "reachable_device\<lparr>get_color := (\<lambda>n. Inr [0, 0, 65535, 3500])\<rparr>"
                        65535 "[0, 0, 65535, 3500]"]
        fades_refuse[of "lit_bulb 65535" reachable_device 65535 "[]"]
  by (simp add: lit_bulb_def item_2 constants)

theorem fade_up_off_at_max_counterexample:
  "item (color ((lit_bulb 65535)\<lparr>power := False\<rparr>)) 2 = Some BR_MAX
   \<and> trace (state_of (fade_up reachable_device ((lit_bulb 65535)\<lparr>power := False\<rparr>)))
       = [Call (SetColor [0, 0, 1310, 3500] 0), Call (SetPower True),
          SetDriver ''ST'' (Percent 1310), Call (SetColor [0, 0, 65535, 3500] 5000)]
   \<and> power (state_of (fade_up reachable_device ((lit_bulb 65535)\<lparr>power := False\<rparr>)))
   \<and> power (lit_bulb 30000)
   \<and> trace (state_of (fade_stop (reachable_device\<lparr>get_color := (\<lambda>n. Inr [0, 0, 65535, 3500])\<rparr>)
                         (lit_bulb 30000)))
       = [Call GetColor, SetDriver ''GV1'' (DInt 0), SetDriver ''GV2'' (DInt 0),
          SetDriver ''GV3'' (DInt 65535), SetDriver ''CLITEMP'' (DInt 3500),
          Log Error ''can not FadeStop as it is currently at limit'']
   \<and> color (state_of (fade_stop (reachable_device\<lparr>get_color := (\<lambda>n. Inr [0, 0, 65535, 3500])\<rparr>)
                         (lit_bulb 30000)))
       \<noteq> color (lit_bulb 30000)"
  by (simp add: light_commands lit_bulb_def reachable_device_def
      effects constants item_def setitem_def Let_def)

subsection \<open>Power notifications\<close>

lemma report_color_frame:
  "tick (state_of (report_color ds c s)) = tick s
   \<and> power (state_of (report_color ds c s)) = power s
   \<and> filter is_report (trace (state_of (report_color ds c s))) = filter is_report (trace s)"
proof (induction ds c s rule: report_color.induct)
  case (1 c s)
  then show ?case by simp
next
  case (2 d i ds c s)
  show ?case
  proof (cases "item c i")
    case None
    then show ?thesis by simp
  next
    case (Some v)
    then show ?thesis
      using 2[OF Some] by (simp add: effects)
  qed
qed


lemma item_lit:
  "item xs 0 = (if 0 < length xs then Some (xs ! 0) else None)"
  "item xs 1 = (if 1 < length xs then Some (xs ! 1) else None)"
  "item xs 2 = (if 2 < length xs then Some (xs ! 2) else None)"
  "item xs 3 = (if 3 < length xs then Some (xs ! 3) else None)"
  by (auto simp: item_def Let_def)

lemma report_color_drivers_outcome:
  "report_color color_drivers c s = Returned (state_of (report_color color_drivers c s))
     \<longleftrightarrow> 4 \<le> length c"
  by (simp add: color_drivers_def item_lit)

lemma Light_update_power_step:
  "filter is_report (trace (state_of (Light_update_power dev s)))
     = filter is_report (trace s) @ notification (power s) (read_power dev (tick s))
   \<and> power (state_of (Light_update_power dev s))
     = (case read_power dev (tick s) of None \<Rightarrow> power s | Some pn \<Rightarrow> pn)"
proof (cases "get_power dev (tick s)")
  case (Inl ex)
  then show ?thesis
    by (simp add: Light_update_power_def read_power_def notification_def effects)
next
  case (Inr p)
  then show ?thesis
    by (simp add: Light_update_power_def read_power_def notification_def Let_def effects
        split: option.splits)
qed


lemma Light_update_step:
  "filter is_report (trace (state_of (Light_update dev s)))
     = filter is_report (trace s) @ notification (power s) (Light_power_now dev s)
   \<and> power (state_of (Light_update dev s))
     = (case Light_power_now dev s of None \<Rightarrow> power s | Some pn \<Rightarrow> pn)"
proof (cases "get_color dev (tick s)")
  case (Inl ex)
  then show ?thesis
    by (simp add: Light_update_def Light_power_now_def notification_def effects)
next
  case (Inr c)
  define r where "r = report_color color_drivers c
                        ((issue GetColor (s\<lparr>connected := 0\<rparr>))\<lparr>color := c, connected := 1\<rparr>)"
  define t where "t = state_of r"
  have upd: "Light_update dev s = andThen r (Light_update_power dev)"
    using Inr by (simp add: Light_update_def Let_def r_def)
  have fr: "tick t = Suc (tick s)" "power t = power s"
    "filter is_report (trace t) = filter is_report (trace s)"
    unfolding t_def r_def
    using report_color_frame[of color_drivers c
            "(issue GetColor (s\<lparr>connected := 0\<rparr>))\<lparr>color := c, connected := 1\<rparr>"]
    by (simp_all add: effects)
  have ret: "r = Returned t \<longleftrightarrow> 4 \<le> length c"
    unfolding t_def r_def by (rule report_color_drivers_outcome)
  show ?thesis
  proof (cases "4 \<le> length c")
    case True
    then have "r = Returned t" using ret by simp
    then have eq: "Light_update dev s = Light_update_power dev t"
      using upd by simp
    have now: "Light_power_now dev s = read_power dev (Suc (tick s))"
      using Inr True by (simp add: Light_power_now_def)
    show ?thesis
      unfolding eq now
      using Light_update_power_step[of dev t]
      unfolding fr .
  next
    case False
    then have "r \<noteq> Returned t" using ret by simp
    then obtain e where "r = Raised e t"
      unfolding t_def by (cases r) auto
    then have eq: "state_of (Light_update dev s) = t"
      using upd by simp
    have now: "Light_power_now dev s = None"
      using Inr False by (simp add: Light_power_now_def)
    show ?thesis
      unfolding eq now by (simp add: fr notification_def)
  qed
qed


lemma set_st_frame:
  "power (state_of (set_st s)) = power s
   \<and> filter is_report (trace (state_of (set_st s))) = filter is_report (trace s)"
  by (simp add: set_st_def effects split: option.splits)

lemma MultiZone_update_power_step:
  "filter is_report (trace (state_of (MultiZone_update_power dev s)))
     = filter is_report (trace s) @ notification (power s) (read_power dev (tick s))
   \<and> power (state_of (MultiZone_update_power dev s))
     = (case read_power dev (tick s) of None \<Rightarrow> power s | Some pn \<Rightarrow> pn)"
proof (cases "get_power dev (tick s)")
  case (Inl ex)
  then show ?thesis
    by (simp add: MultiZone_update_power_def read_power_def notification_def effects)
next
  case (Inr p)
  define s4 where "s4 = (let s1 = issue GetPower s;
                 power_now = (p = 65535);
                 s2 = (if power s1 \<noteq> power_now
                       then (if power_now then reportCmd ''DON'' s1 else reportCmd ''DOF'' s1)
                       else s1);
                 s3 = s2\<lparr>power := power_now\<rparr>
             in s3\<lparr>connected := 1\<rparr>)"
  have s4: "power s4 = (p = 65535)"
    "filter is_report (trace s4)
       = filter is_report (trace s) @ notification (power s) (Some (p = 65535))"
    by (simp_all add: s4_def Let_def notification_def effects)
  have upd: "MultiZone_update_power dev s
      = andThen (set_st s4)
          (\<lambda>s. Returned (setDriver ''RR'' (DInt (duration s))
                           (setDriver ''GV5'' (DInt (connected s)) s)))"
    using Inr by (simp add: MultiZone_update_power_def s4_def Let_def)
  have fr: "power (state_of (MultiZone_update_power dev s)) = power (state_of (set_st s4))
     \<and> filter is_report (trace (state_of (MultiZone_update_power dev s)))
         = filter is_report (trace (state_of (set_st s4)))"
    unfolding upd by (cases "set_st s4") (simp_all add: effects)
  show ?thesis
    using fr set_st_frame[of s4] s4 Inr by (simp add: read_power_def)
qed

lemma MultiZone_update_step:
  "filter is_report (trace (state_of (MultiZone_update dev s)))
     = filter is_report (trace s) @ notification (power s) (MultiZone_power_now dev s)
   \<and> power (state_of (MultiZone_update dev s))
     = (case MultiZone_power_now dev s of None \<Rightarrow> power s | Some pn \<Rightarrow> pn)"
proof -
  define s1 where "s1 = s\<lparr>connected := 0\<rparr>"
  define x where "x = (if \<not> pending s1 then
              (case get_color_zones dev (tick s1) of
                 Inl ex \<Rightarrow>
                   Returned (log Error ''Connection Error on getting multizone color''
                              (issue GetColorZones s1))
               | Inr c \<Rightarrow>
                   (let s2 = (issue GetColorZones s1)\<lparr>color := c, connected := 1,
                                                        num_zones := length c\<rparr>
                    in andThen
                         (case item (color s2) (zone_index (current_zone s1)) of
                            None \<Rightarrow> Raised IndexError s2
                          | Some zc \<Rightarrow> report_color color_drivers zc s2)
                         (\<lambda>s. Returned (setDriver ''GV4'' (DInt (current_zone s)) s))))
            else Returned s1)"
  define t where "t = state_of x"
  have upd: "MultiZone_update dev s = andThen x (MultiZone_update_power dev)"
    unfolding MultiZone_update_def x_def s1_def Let_def by simp
  have main: "power t = power s \<and> filter is_report (trace t) = filter is_report (trace s)
     \<and> ((x = Returned t \<and> MultiZone_power_now dev s = read_power dev (tick t))
         \<or> ((\<exists>e. x = Raised e t) \<and> MultiZone_power_now dev s = None))"
  proof (cases "pending s")
    case True
    then have "x = Returned s1" by (simp add: x_def s1_def)
    then show ?thesis
      using True by (simp add: t_def s1_def MultiZone_power_now_def)
  next
    case False
    show ?thesis
    proof (cases "get_color_zones dev (tick s)")
      case (Inl ex)
      then have "x = Returned (log Error ''Connection Error on getting multizone color''
                            (issue GetColorZones s1))"
        using False by (simp add: x_def s1_def)
      then show ?thesis
        using False Inl by (simp add: t_def s1_def MultiZone_power_now_def effects)
    next
      case (Inr c)
      define s2 where "s2 = (issue GetColorZones s1)\<lparr>color := c, connected := 1,
                                                      num_zones := length c\<rparr>"
      have s2: "power s2 = power s" "filter is_report (trace s2) = filter is_report (trace s)"
        "tick s2 = Suc (tick s)"
        by (simp_all add: s2_def s1_def effects)
      have x: "x = andThen
                       (case item c (zone_index (current_zone s)) of
                          None \<Rightarrow> Raised IndexError s2
                        | Some zc \<Rightarrow> report_color color_drivers zc s2)
                       (\<lambda>s. Returned (setDriver ''GV4'' (DInt (current_zone s)) s))"
        using False Inr unfolding x_def s1_def s2_def Let_def by simp
      show ?thesis
      proof (cases "item c (zone_index (current_zone s))")
        case None
        then have "x = Raised IndexError s2" using x by simp
        then show ?thesis
          using False Inr None s2 by (simp add: t_def MultiZone_power_now_def)
      next
        case (Some zc)
        define r where "r = report_color color_drivers zc s2"
        have xr: "x = andThen r (\<lambda>s. Returned (setDriver ''GV4'' (DInt (current_zone s)) s))"
          using x Some by (simp add: r_def)
        have rf: "tick (state_of r) = Suc (tick s)" "power (state_of r) = power s"
          "filter is_report (trace (state_of r)) = filter is_report (trace s)"
          unfolding r_def using report_color_frame[of color_drivers zc s2] s2 by simp_all
        have ret: "r = Returned (state_of r) \<longleftrightarrow> 4 \<le> length zc"
          unfolding r_def by (rule report_color_drivers_outcome)
        show ?thesis
        proof (cases "4 \<le> length zc")
          case True
          then have "r = Returned (state_of r)" using ret by simp
          then have "x = Returned (setDriver ''GV4'' (DInt (current_zone (state_of r))) (state_of r))"
            using xr by (metis andThen.simps(1))
          then show ?thesis
            using rf False Inr Some True
            by (simp add: t_def MultiZone_power_now_def effects)
        next
          case F4: False
          then have "r \<noteq> Returned (state_of r)" using ret by simp
          then obtain e where "r = Raised e (state_of r)"
            by (cases r) auto
          then have "x = Raised e (state_of r)"
            using xr by (metis andThen.simps(2))
          then show ?thesis
            using rf False Inr Some F4
            by (simp add: t_def MultiZone_power_now_def)
        qed
      qed
    qed
  qed
  then have reach: "(x = Returned t \<and> MultiZone_power_now dev s = read_power dev (tick t))
         \<or> ((\<exists>e. x = Raised e t) \<and> MultiZone_power_now dev s = None)"
    and p: "power t = power s"
    and f: "filter is_report (trace t) = filter is_report (trace s)"
    by simp_all
  from reach show ?thesis
  proof
    assume a: "x = Returned t \<and> MultiZone_power_now dev s = read_power dev (tick t)"
    then have eq: "MultiZone_update dev s = MultiZone_update_power dev t"
      using upd by simp
    have now: "MultiZone_power_now dev s = read_power dev (tick t)"
      using a by simp
    show ?thesis
      unfolding eq now
      using MultiZone_update_power_step[of dev t]
      unfolding p f .
  next
    assume a: "(\<exists>e. x = Raised e t) \<and> MultiZone_power_now dev s = None"
    then obtain e where "x = Raised e t" by blast
    then have eq: "state_of (MultiZone_update dev s) = t"
      using upd by simp
    have now: "MultiZone_power_now dev s = None" using a by simp
    show ?thesis
      unfolding eq now using p f by (simp add: notification_def)
  qed
qed


text \<open>
  A step that either leaves mirror and reports alone or moves the mirror to \<open>b\<close> with one
  report: iterated, it reports once if the mirror has changed and not at all otherwise.
\<close>

lemma edge_triggered_iteration:
  fixes f :: "'s \<Rightarrow> 's" and pw :: "'s \<Rightarrow> bool" and reps :: "'s \<Rightarrow> event list"
  assumes step: "\<And>u. (pw (f u) = pw u \<and> reps (f u) = reps u)
                     \<or> (pw u \<noteq> b \<and> pw (f u) = b \<and> reps (f u) = reps u @ [r])"
  shows "reps ((f ^^ n) s) = reps s @ (if pw ((f ^^ n) s) \<noteq> pw s then [r] else [])
         \<and> (pw ((f ^^ n) s) = pw s \<or> pw ((f ^^ n) s) = b)"
proof (induction n)
  case 0
  show ?case by simp
next
  case (Suc n)
  show ?case
    using Suc step[of "(f ^^ n) s"] by (auto split: if_splits)
qed

lemma read_power_constant:
  assumes "\<forall>t p. get_power dev t = Inr p \<longrightarrow> (p = 65535) = b"
  shows "read_power dev n = None \<or> read_power dev n = Some b"
  using assms by (cases "get_power dev n") (auto simp: read_power_def)

lemma notification_cases:
  assumes "fresh = None \<or> fresh = Some b"
  shows "(notification mirror fresh = []
           \<and> (case fresh of None \<Rightarrow> mirror | Some pn \<Rightarrow> pn) = mirror)
       \<or> (mirror \<noteq> b
           \<and> (case fresh of None \<Rightarrow> mirror | Some pn \<Rightarrow> pn) = b
           \<and> notification mirror fresh = [ReportCmd (if b then ''DON'' else ''DOF'')])"
  using assms by (cases mirror; cases b; auto simp: notification_def)

lemma Light_poll_step:
  assumes "\<forall>t p. get_power dev t = Inr p \<longrightarrow> (p = 65535) = b"
  shows "(power (state_of (Light_update dev u)) = power u
           \<and> filter is_report (trace (state_of (Light_update dev u))) = filter is_report (trace u))
       \<or> (power u \<noteq> b \<and> power (state_of (Light_update dev u)) = b
           \<and> filter is_report (trace (state_of (Light_update dev u)))
               = filter is_report (trace u) @ [ReportCmd (if b then ''DON'' else ''DOF'')])"
proof -
  have "Light_power_now dev u = None \<or> Light_power_now dev u = Some b"
    using read_power_constant[OF assms, of "Suc (tick u)"]
    by (auto simp: Light_power_now_def split: sum.splits)
  from notification_cases[OF this, of "power u"] Light_update_step[of dev u]
  show ?thesis by auto
qed

lemma MultiZone_poll_step:
  assumes "\<forall>t p. get_power dev t = Inr p \<longrightarrow> (p = 65535) = b"
  shows "(power (state_of (MultiZone_update dev u)) = power u
           \<and> filter is_report (trace (state_of (MultiZone_update dev u)))
               = filter is_report (trace u))
       \<or> (power u \<noteq> b \<and> power (state_of (MultiZone_update dev u)) = b
           \<and> filter is_report (trace (state_of (MultiZone_update dev u)))
               = filter is_report (trace u) @ [ReportCmd (if b then ''DON'' else ''DOF'')])"
proof -
  have "MultiZone_power_now dev u = None \<or> MultiZone_power_now dev u = Some b"
    using read_power_constant[OF assms, of "Suc (tick u)"]
      read_power_constant[OF assms, of "tick u"]
    by (auto simp: MultiZone_power_now_def split: sum.splits option.splits)
  from notification_cases[OF this, of "power u"] MultiZone_update_step[of dev u]
  show ?thesis by auto
qed

text \<open>
  Claim C6. A refresh reports a power change exactly when it reads a power value and the
  value (on for 65535, off otherwise) differs from the mirror, with \<^verbatim>\<open>DON\<close> or \<^verbatim>\<open>DOF\<close>
  after the value read, and the mirror then holds that value; a refresh that reads no
  power value reports nothing and leaves the mirror. Over any number of polls in which
  every power value read is the same \<open>b\<close>, the reports added are none when the mirror ends
  as it started (in particular when it started at \<open>b\<close>) and exactly one when it has
  changed, and the mirror only ever moves to \<open>b\<close>. Both for \<^verbatim>\<open>Light\<close> and \<^verbatim>\<open>MultiZone\<close>.
\<close>

theorem power_notification_edge_triggered:
  "(filter is_report (trace (state_of (Light_update dev s)))
      = filter is_report (trace s) @ notification (power s) (Light_power_now dev s)
    \<and> power (state_of (Light_update dev s))
      = (case Light_power_now dev s of None \<Rightarrow> power s | Some pn \<Rightarrow> pn))
   \<and> (filter is_report (trace (state_of (MultiZone_update dev z)))
      = filter is_report (trace z) @ notification (power z) (MultiZone_power_now dev z)
    \<and> power (state_of (MultiZone_update dev z))
      = (case MultiZone_power_now dev z of None \<Rightarrow> power z | Some pn \<Rightarrow> pn))
   \<and> ((\<forall>t p. get_power dev t = Inr p \<longrightarrow> (p = 65535) = b) \<longrightarrow>
        filter is_report (trace (Light_polls dev n s))
          = filter is_report (trace s) @
              (if power (Light_polls dev n s) \<noteq> power s
               then [ReportCmd (if b then ''DON'' else ''DOF'')] else [])
        \<and> (power (Light_polls dev n s) = power s \<or> power (Light_polls dev n s) = b)
        \<and> filter is_report (trace (MultiZone_polls dev n z))
          = filter is_report (trace z) @
              (if power (MultiZone_polls dev n z) \<noteq> power z
               then [ReportCmd (if b then ''DON'' else ''DOF'')] else [])
        \<and> (power (MultiZone_polls dev n z) = power z \<or> power (MultiZone_polls dev n z) = b))"
proof -
  have polls: "filter is_report (trace (Light_polls dev n s))
          = filter is_report (trace s) @
              (if power (Light_polls dev n s) \<noteq> power s
               then [ReportCmd (if b then ''DON'' else ''DOF'')] else [])
        \<and> (power (Light_polls dev n s) = power s \<or> power (Light_polls dev n s) = b)
        \<and> filter is_report (trace (MultiZone_polls dev n z))
          = filter is_report (trace z) @
              (if power (MultiZone_polls dev n z) \<noteq> power z
               then [ReportCmd (if b then ''DON'' else ''DOF'')] else [])
        \<and> (power (MultiZone_polls dev n z) = power z \<or> power (MultiZone_polls dev n z) = b)"
    if h: "\<forall>t p. get_power dev t = Inr p \<longrightarrow> (p = 65535) = b"
  proof -
    note l = edge_triggered_iteration[of power "\<lambda>u. state_of (Light_update dev u)"
               "\<lambda>u. filter is_report (trace u)" b
               "ReportCmd (if b then ''DON'' else ''DOF'')" n s, OF Light_poll_step[OF h]]
    note m = edge_triggered_iteration[of power "\<lambda>u. state_of (MultiZone_update dev u)"
               "\<lambda>u. filter is_report (trace u)" b
               "ReportCmd (if b then ''DON'' else ''DOF'')" n z, OF MultiZone_poll_step[OF h]]
    show ?thesis
      using l m unfolding Light_polls_def MultiZone_polls_def by blast
  qed
  show ?thesis
    using Light_update_step[of dev s] MultiZone_update_step[of dev z] polls by blast
qed

theorem power_notification_edge_triggered_witness:
  "get_power reachable_device = (\<lambda>n. Inr 65535)
   \<and> power ((lit_bulb 30000)\<lparr>power := False\<rparr>) = False
   \<and> filter is_report (trace (Light_polls reachable_device 2 ((lit_bulb 30000)\<lparr>power := False\<rparr>)))
       = [ReportCmd ''DON'']
   \<and> filter is_report (trace (Light_polls reachable_device 2 (lit_bulb 30000))) = []"
proof -
  have h: "\<forall>t p. get_power reachable_device t = Inr p \<longrightarrow> (p = 65535) = True"
    by (simp add: reachable_device_def)
  have on: "power (Light_polls reachable_device 2 ((lit_bulb 30000)\<lparr>power := False\<rparr>))"
    by (simp add: Light_polls_def numeral_2_eq_2 Light_update_def Light_update_power_def
        color_drivers_def item_lit reachable_device_def lit_bulb_def effects Let_def)
  have still: "power (Light_polls reachable_device 2 (lit_bulb 30000))"
    by (simp add: Light_polls_def numeral_2_eq_2 Light_update_def Light_update_power_def
        color_drivers_def item_lit reachable_device_def lit_bulb_def effects Let_def)
  show ?thesis
    using power_notification_edge_triggered[of reachable_device
            "(lit_bulb 30000)\<lparr>power := False\<rparr>" strip4 True 2]
          power_notification_edge_triggered[of reachable_device "lit_bulb 30000" strip4 True 2]
          h on still
    by (simp add: reachable_device_def lit_bulb_def)
qed

subsection \<open>Tile: saved colours\<close>

lemma saved_lookup_cong:
  "saved_tile_colors t' = saved_tile_colors t \<Longrightarrow> address t' = address t \<Longrightarrow>
   saved_lookup t' slot = saved_lookup t slot"
  by (simp add: saved_lookup_def split: option.splits)

lemma saved_lookup_store:
  "saved_lookup (t\<lparr>saved_tile_colors := Some m\<rparr>) slot
     = (case m (address t) of None \<Rightarrow> None | Some sl \<Rightarrow> sl slot)"
  by (simp add: saved_lookup_def split: option.splits)

lemma save_state_outcome:
  assumes "get_tilechain_colors dev (tick t) = Inr arr"
  shows "\<exists>t'. save_state dev slot t = Returned t'
          \<and> saved_lookup t' slot = Some arr
          \<and> (\<forall>slot'. slot' \<noteq> slot \<longrightarrow> saved_lookup t' slot' = saved_lookup t slot')
          \<and> address t' = address t \<and> duration t' = duration t \<and> effect t' = effect t
          \<and> filter is_call (drop (length (trace t)) (trace t')) = [Call GetTilechainColors]"
proof -
  define store where "store = (case saved_tile_colors t of None \<Rightarrow> Map.empty | Some m \<Rightarrow> m)"
  define slots where "slots = (case store (address t) of None \<Rightarrow> Map.empty | Some sl \<Rightarrow> sl)"
  define t' where "t' = log Info ''saved_tile_colors''
                   ((issue GetTilechainColors t)\<lparr>saved_tile_colors :=
                         Some (store(address t \<mapsto> slots(slot \<mapsto> arr)))\<rparr>)"
  have ret: "save_state dev slot t = Returned t'"
    using assms unfolding save_state_def t'_def store_def slots_def Let_def
    by (simp add: effects)
  have ad: "address t' = address t" "duration t' = duration t" "effect t' = effect t"
    "saved_tile_colors t' = Some (store(address t \<mapsto> slots(slot \<mapsto> arr)))"
    "trace t' = trace t @ [Call GetTilechainColors, Log Info ''saved_tile_colors'']"
    by (simp_all add: t'_def effects)
  have l: "\<And>k. saved_lookup t' k = (slots(slot \<mapsto> arr)) k"
    by (simp add: saved_lookup_def ad)
  have old: "\<And>k. slots k = saved_lookup t k"
    by (simp add: saved_lookup_def slots_def store_def split: option.splits)
  show ?thesis
    using ret l old ad by simp
qed


lemma recall_state_outcome:
  "\<exists>u'. recall_state dev slot u = Returned u'
        \<and> filter is_tile_write (drop (length (trace u)) (trace u'))
            = (case saved_lookup u slot of
                 None \<Rightarrow> []
               | Some arr \<Rightarrow> [Call (SetTilechainColors arr (duration u))])
        \<and> (saved_lookup u slot = None \<longrightarrow>
              last (trace u') = Log Error ''Failed to retrieve saved tile colors'')"
proof -
  define pre where "pre = (if effect u > 0 then
          andThen
            (try_call dev (\<lambda>e. True) (SetTileEffect 0 3000 0 [])
               (log Info ''is running effect, stopping effect before recall_state()'' u)
               (\<lambda>t. Returned (log Error ''Failed to stop effect'' t))
               Returned)
            (\<lambda>t. Returned (setDriver ''GV9'' (DInt 0) (t\<lparr>effect := 0\<rparr>)))
        else Returned u)"
  have "\<exists>t es. pre = Returned t \<and> trace t = trace u @ es \<and> filter is_tile_write es = []
          \<and> saved_tile_colors t = saved_tile_colors u \<and> address t = address u
          \<and> duration t = duration u"
    unfolding pre_def
    by (cases "do_write dev (tick u) (SetTileEffect 0 3000 0 [])")
       (simp_all add: try_call_def effects)
  then obtain t es where t: "pre = Returned t" "trace t = trace u @ es"
    "filter is_tile_write es = []" "saved_tile_colors t = saved_tile_colors u"
    "address t = address u" "duration t = duration u"
    by blast
  have lk: "saved_lookup t slot = saved_lookup u slot"
    using t(4,5) by (rule saved_lookup_cong)
  have rc: "recall_state dev slot u =
        (case saved_lookup t slot of
               None \<Rightarrow> Returned (log Error ''Failed to retrieve saved tile colors'' t)
             | Some color_array \<Rightarrow>
                 try_call dev (\<lambda>e. True) (SetTilechainColors color_array (duration t)) t
                   (\<lambda>t. Returned (log Error ''Failed to set tile colors'' t))
                   Returned)"
    unfolding recall_state_def pre_def[symmetric] t(1) by simp
  show ?thesis
  proof (cases "saved_lookup u slot")
    case None
    then have "recall_state dev slot u
                 = Returned (log Error ''Failed to retrieve saved tile colors'' t)"
      using rc lk by simp
    then show ?thesis
      using None t(2,3) by (simp add: effects)
  next
    case (Some arr)
    then have r: "recall_state dev slot u
        = try_call dev (\<lambda>e. True) (SetTilechainColors arr (duration u)) t
                   (\<lambda>t. Returned (log Error ''Failed to set tile colors'' t))
                   Returned"
      using rc lk t(6) by simp
    show ?thesis
      unfolding r
      using Some t(2,3)
      by (cases "do_write dev (tick t) (SetTilechainColors arr (duration u))")
         (simp_all add: try_call_def effects)
  qed
qed


text \<open>
  Claim C9. When \<^verbatim>\<open>save_state\<close> reads the colours \<open>arr\<close> from the device it returns
  with \<open>arr\<close> stored under the node's address and the slot, the other slots of the node
  as they were, and a \<^verbatim>\<open>recall_state\<close> of that slot right after it writes exactly \<open>arr\<close>
  back, with the node's duration, as its only colour write. In any later state that still
  holds \<open>arr\<close> under the address and the slot, \<^verbatim>\<open>recall_state\<close> does the same. Where
  nothing is stored under the address and the slot, \<^verbatim>\<open>recall_state\<close> returns without a
  colour write, and the last thing it does is log the failure.
\<close>

theorem save_then_recall:
  "(get_tilechain_colors dev (tick t) = Inr arr \<longrightarrow>
      (\<exists>t'. save_state dev slot t = Returned t'
          \<and> saved_lookup t' slot = Some arr
          \<and> (\<forall>slot'. slot' \<noteq> slot \<longrightarrow> saved_lookup t' slot' = saved_lookup t slot')
          \<and> (\<exists>u'. recall_state dev slot t' = Returned u'
                 \<and> filter is_tile_write (drop (length (trace t')) (trace u'))
                     = [Call (SetTilechainColors arr (duration t))])))
   \<and> (saved_lookup u slot = Some arr \<longrightarrow>
      (\<exists>u'. recall_state dev slot u = Returned u'
          \<and> filter is_tile_write (drop (length (trace u)) (trace u'))
              = [Call (SetTilechainColors arr (duration u))]))
   \<and> (saved_lookup u slot = None \<longrightarrow>
      (\<exists>u'. recall_state dev slot u = Returned u'
          \<and> filter is_tile_write (drop (length (trace u)) (trace u')) = []
          \<and> last (trace u') = Log Error ''Failed to retrieve saved tile colors''))"
proof -
  have recall_some: "\<exists>u'. recall_state dev slot w = Returned u'
          \<and> filter is_tile_write (drop (length (trace w)) (trace u'))
              = [Call (SetTilechainColors arr (duration w))]"
    if "saved_lookup w slot = Some arr" for w
    using recall_state_outcome[of dev slot w] that by auto
  have recall_none: "\<exists>u'. recall_state dev slot u = Returned u'
          \<and> filter is_tile_write (drop (length (trace u)) (trace u')) = []
          \<and> last (trace u') = Log Error ''Failed to retrieve saved tile colors''"
    if "saved_lookup u slot = None"
    using recall_state_outcome[of dev slot u] that by auto
  have save: "\<exists>t'. save_state dev slot t = Returned t'
          \<and> saved_lookup t' slot = Some arr
          \<and> (\<forall>slot'. slot' \<noteq> slot \<longrightarrow> saved_lookup t' slot' = saved_lookup t slot')
          \<and> (\<exists>u'. recall_state dev slot t' = Returned u'
                 \<and> filter is_tile_write (drop (length (trace t')) (trace u'))
                     = [Call (SetTilechainColors arr (duration t))])"
    if h: "get_tilechain_colors dev (tick t) = Inr arr"
  proof -
    from save_state_outcome[OF h, of slot] obtain t' where t':
      "save_state dev slot t = Returned t'" "saved_lookup t' slot = Some arr"
      "\<forall>slot'. slot' \<noteq> slot \<longrightarrow> saved_lookup t' slot' = saved_lookup t slot'"
      "duration t' = duration t"
      by blast
    from recall_some[OF t'(2)] t'(4) have
      "\<exists>u'. recall_state dev slot t' = Returned u'
                 \<and> filter is_tile_write (drop (length (trace t')) (trace u'))
                     = [Call (SetTilechainColors arr (duration t))]"
      by simp
    with t'(1,2,3) show ?thesis by blast
  qed
  show ?thesis
    using save recall_some[of u] recall_none by blast
qed

theorem save_then_recall_witness:
  "get_tilechain_colors reachable_device (tick morphing_tile)
     = Inr [[[0, 0, 30000, 3500], [10, 0, 30000, 3500]]]
   \<and> saved_lookup morphing_tile ''2'' = None
   \<and> (\<exists>t'. save_state reachable_device ''1'' morphing_tile = Returned t'
          \<and> saved_lookup t' ''1'' = Some [[[0, 0, 30000, 3500], [10, 0, 30000, 3500]]]
          \<and> (\<exists>u'. recall_state reachable_device ''1'' t' = Returned u'
                 \<and> filter is_tile_write (drop (length (trace t')) (trace u'))
                     = [Call (SetTilechainColors [[[0, 0, 30000, 3500], [10, 0, 30000, 3500]]] 250)]))
   \<and> saved_lookup (morphing_tile\<lparr>saved_tile_colors :=
                        Some [''d073d5000003'' \<mapsto> [''1'' \<mapsto> [[[0, 0, 30000, 3500], [10, 0, 30000, 3500]]]]]\<rparr>) ''1''
       = Some [[[0, 0, 30000, 3500], [10, 0, 30000, 3500]]]
   \<and> (\<exists>u'. recall_state reachable_device ''1''
                (morphing_tile\<lparr>saved_tile_colors :=
                                 Some [''d073d5000003'' \<mapsto> [''1'' \<mapsto> [[[0, 0, 30000, 3500], [10, 0, 30000, 3500]]]]]\<rparr>)
              = Returned u'
          \<and> filter is_tile_write (trace u') = [Call (SetTilechainColors [[[0, 0, 30000, 3500], [10, 0, 30000, 3500]]] 250)])
   \<and> (\<exists>u'. recall_state reachable_device ''2'' morphing_tile = Returned u'
          \<and> filter is_tile_write (trace u') = []
          \<and> last (trace u') = Log Error ''Failed to retrieve saved tile colors'')"
proof -
  have k: "saved_lookup (morphing_tile\<lparr>saved_tile_colors :=
                        Some [''d073d5000003'' \<mapsto> [''1'' \<mapsto> [[[0, 0, 30000, 3500], [10, 0, 30000, 3500]]]]]\<rparr>) ''1''
       = Some [[[0, 0, 30000, 3500], [10, 0, 30000, 3500]]]"
    by (simp add: saved_lookup_def morphing_tile_def)
  note c = save_then_recall[of reachable_device morphing_tile
             "[[[0, 0, 30000, 3500], [10, 0, 30000, 3500]]]" "''1''"
             "morphing_tile\<lparr>saved_tile_colors :=
                        Some [''d073d5000003'' \<mapsto> [''1'' \<mapsto> [[[0, 0, 30000, 3500], [10, 0, 30000, 3500]]]]]\<rparr>",
             THEN conjunct2, THEN conjunct1, rule_format, OF k]
  have c': "\<exists>u'. recall_state reachable_device ''1''
                (morphing_tile\<lparr>saved_tile_colors :=
                                 Some [''d073d5000003'' \<mapsto> [''1'' \<mapsto> [[[0, 0, 30000, 3500], [10, 0, 30000, 3500]]]]]\<rparr>)
              = Returned u'
          \<and> filter is_tile_write (trace u') = [Call (SetTilechainColors [[[0, 0, 30000, 3500], [10, 0, 30000, 3500]]] 250)]"
    using c by (simp add: morphing_tile_def)
  have h: "get_tilechain_colors reachable_device (tick morphing_tile)
             = Inr [[[0, 0, 30000, 3500], [10, 0, 30000, 3500]]]"
    by (simp add: reachable_device_def)
  have n: "saved_lookup morphing_tile ''2'' = None"
    by (simp add: saved_lookup_def morphing_tile_def)
  have d: "duration morphing_tile = 250" "trace morphing_tile = []"
    by (simp_all add: morphing_tile_def)
  note a = save_then_recall[of reachable_device morphing_tile
             "[[[0, 0, 30000, 3500], [10, 0, 30000, 3500]]]" "''1''" morphing_tile,
             THEN conjunct1, rule_format, OF h]
  note b = save_then_recall[of reachable_device morphing_tile
             "[[[0, 0, 30000, 3500], [10, 0, 30000, 3500]]]" "''2''" morphing_tile,
             THEN conjunct2, THEN conjunct2, rule_format, OF n]
  from a have a': "\<exists>t'. save_state reachable_device ''1'' morphing_tile = Returned t'
          \<and> saved_lookup t' ''1'' = Some [[[0, 0, 30000, 3500], [10, 0, 30000, 3500]]]
          \<and> (\<exists>u'. recall_state reachable_device ''1'' t' = Returned u'
                 \<and> filter is_tile_write (drop (length (trace t')) (trace u'))
                     = [Call (SetTilechainColors [[[0, 0, 30000, 3500], [10, 0, 30000, 3500]]] 250)])"
    unfolding d by blast
  from b have b': "\<exists>u'. recall_state reachable_device ''2'' morphing_tile = Returned u'
          \<and> filter is_tile_write (trace u') = []
          \<and> last (trace u') = Log Error ''Failed to retrieve saved tile colors''"
    unfolding d by simp
  show ?thesis
    using h n a' b' k c' by blast
qed

subsection \<open>Discovery\<close>

lemmas controller_effects = cemit_def clog_def addNode_def setDriver_GV0_def

lemma auto_device_extends:
  "\<exists>es. ctrace (state_of (auto_device w d c)) = ctrace c @ es"
proof (cases "f_label d")
  case (Inl e)
  then show ?thesis by (simp add: auto_device_def controller_effects)
next
  case (Inr label)
  define c1 where "c1 = cemit (GetLabel (f_mac d)) c"
  define x where "x = (if nodes c1 (mac_address (f_mac d)) = None then
                   (let c2 = cemit (SupportsMultizone (f_mac d)) (c1\<lparr>bulbs_found := bulbs_found c1 + 1\<rparr>)
                    in case f_multizone d of
                         Inl e \<Rightarrow> Raised e c2
                       | Inr mz \<Rightarrow>
                           if mz
                           then Returned (addNode (mac_address (f_mac d)) (CMultiZone, ''LIFX '' @ label)
                                            (clog Info ''Found MultiZone Bulb'' c2))
                           else Returned (addNode (mac_address (f_mac d)) (CLight, ''LIFX '' @ label)
                                            (clog Info ''Found Bulb'' c2)))
                 else Returned c1)"
  have x: "\<exists>es. ctrace (state_of x) = ctrace c @ es"
    unfolding x_def c1_def
    by (cases "f_multizone d") (simp_all add: Let_def controller_effects)
  have k: "\<exists>es. ctrace (state_of
                    (let c3 = cemit (GetGroupTuple (f_mac d)) t in
                      case f_group d of
                        Inl e \<Rightarrow> Raised e c3
                      | Inr glabel \<Rightarrow>
                          if nodes c3 (group_address glabel) = None then
                            (let c4 = cemit (GetDevicesByGroup glabel)
                                        (clog Info ''Found LiFX Group'' c3)
                             in case get_devices_by_group w glabel of
                                  Some e \<Rightarrow> Raised e c4
                                | None \<Rightarrow>
                                    Returned (addNode (group_address glabel)
                                                (CGroup, ''LIFX Group '' @ glabel) c4))
                          else Returned c3)) = ctrace t @ es" for t
    by (cases "f_group d")
       (simp_all add: Let_def controller_effects split: option.splits)
  have d: "auto_device w d c = andThen x
                (\<lambda>c. let c3 = cemit (GetGroupTuple (f_mac d)) c in
                      case f_group d of
                        Inl e \<Rightarrow> Raised e c3
                      | Inr glabel \<Rightarrow>
                          if nodes c3 (group_address glabel) = None then
                            (let c4 = cemit (GetDevicesByGroup glabel)
                                        (clog Info ''Found LiFX Group'' c3)
                             in case get_devices_by_group w glabel of
                                  Some e \<Rightarrow> Raised e c4
                                | None \<Rightarrow>
                                    Returned (addNode (group_address glabel)
                                                (CGroup, ''LIFX Group '' @ glabel) c4))
                          else Returned c3)"
    using Inr unfolding auto_device_def x_def c1_def Let_def by simp
  show ?thesis
  proof (cases x)
    case (Returned t)
    then show ?thesis
      using x k[of t] unfolding d by auto
  next
    case (Raised e t)
    then show ?thesis
      using x unfolding d by auto
  qed
qed

lemma auto_devices_extends:
  "\<exists>es. ctrace (state_of (auto_devices w ds c)) = ctrace c @ es"
proof (induction ds arbitrary: c)
  case Nil
  show ?case by simp
next
  case (Cons d ds)
  show ?case
  proof (cases "auto_device w d c")
    case (Returned t)
    then show ?thesis
      using auto_device_extends[of w d c] Cons[of t] by auto
  next
    case (Raised e t)
    then show ?thesis
      using auto_device_extends[of w d c] by auto
  qed
qed


lemma automatic_discovery_enumerates:
  "\<exists>es. ctrace (state_of (automatic_discovery w c)) = ctrace c @ GetLights # es"
proof -
  define x where "x = (case get_lights w of
                Inl e \<Rightarrow> Raised e (cemit GetLights c)
              | Inr devices \<Rightarrow>
                  auto_devices w devices
                    (clog Info ''bulbs found. Checking status and adding to ISY if necessary.''
                       (cemit GetLights c)))"
  define y where "y = (case x of
          Returned c1 \<Rightarrow> Returned c1
        | Raised e c1 \<Rightarrow>
            if e = WorkflowException \<or> e = OSError \<or> e = TypeError
            then Returned (clog Error ''discovery Error'' c1)
            else Raised e c1)"
  have x: "\<exists>es. ctrace (state_of x) = ctrace c @ GetLights # es"
  proof (cases "get_lights w")
    case (Inl e)
    then show ?thesis by (simp add: x_def controller_effects)
  next
    case (Inr devices)
    from auto_devices_extends[of w devices
           "clog Info ''bulbs found. Checking status and adding to ISY if necessary.''
              (cemit GetLights c)"]
    show ?thesis
      using Inr by (auto simp: x_def controller_effects)
  qed
  have y: "\<exists>es. ctrace (state_of y) = ctrace c @ GetLights # es"
    using x unfolding y_def by (cases x) (auto simp: controller_effects)
  have a: "automatic_discovery w c = andThen y
       (\<lambda>c. let c1 = c\<lparr>update_nodes := False\<rparr>;
                 c2 = (case GV0 c1 of
                         None \<Rightarrow> c1
                       | Some old_bulbs_found \<Rightarrow>
                           if bulbs_found c1 \<noteq> old_bulbs_found
                           then clog Info ''NOTICE: Bulb count is different'' c1
                           else c1)
             in Returned (clog Info ''LiFX Discovery thread is complete.'' (setDriver_GV0 c2)))"
    unfolding automatic_discovery_def y_def x_def by simp
  show ?thesis
  proof (cases y)
    case (Returned t)
    then show ?thesis
      using y unfolding a
      by (auto simp: Let_def controller_effects split: option.splits)
  next
    case (Raised e t)
    then show ?thesis
      using y unfolding a by auto
  qed
qed

lemma manual_discovery_fails:
  assumes "devlist c = Some path" and "open_file w path = None"
  shows "load_yaml w path = Inl ex \<Longrightarrow>
           manual_discovery w c
             = (Inr False, clog Error ''Failed to parse content''
                             (cemit (LoadYaml path) (cemit (OpenFile path) c)))"
    and "load_yaml w path = Inr (YMap None g) \<Longrightarrow>
           manual_discovery w c
             = (Inr False, clog Error ''Manual discovery file is missing bulbs section''
                             (cemit (LoadYaml path) (cemit (OpenFile path) c)))"
  using assms by (simp_all add: manual_discovery_def Let_def)

text \<open>
  Claim C1, as amended. When the device list opens but its content does not parse, or
  parses to a mapping without a \<^verbatim>\<open>bulbs\<close> section, \<^verbatim>\<open>_manual_discovery\<close> returns
  \<^verbatim>\<open>False\<close> without touching the registry, and \<^verbatim>\<open>_discovery_process\<close> logs
  ``Manual discovery failed'' and goes on with automatic discovery in the same run: the
  rest of the cycle is the automatic discovery from that state, whose first step is the
  client's enumeration of the LAN (\<^verbatim>\<open>get_lights\<close>).
\<close>

theorem manual_failure_falls_back:
  assumes "devlist c = Some path" and "path \<noteq> []" and "open_file w path = None"
    and "load_yaml w path = Inl ex \<or> load_yaml w path = Inr (YMap None g)"
  shows "\<exists>c' msg es.
           discovery_process w c = automatic_discovery w c'
           \<and> nodes c' = nodes c \<and> bulbs_found c' = bulbs_found c
           \<and> ctrace c' = ctrace c @
                [CLog Info ''Starting LiFX Discovery thread...'',
                 CLog Info ''Attempting manual discovery...'',
                 OpenFile path, LoadYaml path, CLog Error msg,
                 CLog Error ''Manual discovery failed'']
           \<and> ctrace (state_of (discovery_process w c)) = ctrace c' @ GetLights # es"
proof -
  define c0 where "c0 = clog Info ''Attempting manual discovery...''
                          (clog Info ''Starting LiFX Discovery thread...'' c)"
  have c0: "devlist c0 = Some path"
    using assms(1) by (simp add: c0_def controller_effects)
  obtain msg where m: "manual_discovery w c0
             = (Inr False, clog Error msg (cemit (LoadYaml path) (cemit (OpenFile path) c0)))"
    using assms(4) manual_discovery_fails[OF c0 assms(3)] by blast
  define c' where "c' = clog Error ''Manual discovery failed''
                          (clog Error msg (cemit (LoadYaml path) (cemit (OpenFile path) c0)))"
  have d: "discovery_process w c = automatic_discovery w c'"
    using assms(1,2) m
    unfolding discovery_process_def c0_def[symmetric] c'_def Let_def
    by (simp add: controller_effects c0_def[symmetric])
  have f: "nodes c' = nodes c" "bulbs_found c' = bulbs_found c"
    "ctrace c' = ctrace c @
                [CLog Info ''Starting LiFX Discovery thread...'',
                 CLog Info ''Attempting manual discovery...'',
                 OpenFile path, LoadYaml path, CLog Error msg,
                 CLog Error ''Manual discovery failed'']"
    by (simp_all add: c'_def c0_def controller_effects)
  obtain es where "ctrace (state_of (automatic_discovery w c')) = ctrace c' @ GetLights # es"
    using automatic_discovery_enumerates by blast
  then show ?thesis
    using d f by auto
qed


theorem manual_failure_falls_back_witness:
  "devlist idle_controller = Some ''devices.yaml'' \<and> ''devices.yaml'' \<noteq> []
   \<and> open_file no_bulbs_world ''devices.yaml'' = None
   \<and> load_yaml no_bulbs_world ''devices.yaml'' = Inr (YMap None None)
   \<and> (\<exists>c' es. discovery_process no_bulbs_world idle_controller
                  = automatic_discovery no_bulbs_world c'
              \<and> nodes c' = nodes idle_controller
              \<and> ctrace (state_of (discovery_process no_bulbs_world idle_controller))
                  = ctrace c' @ GetLights # es)"
proof -
  have a: "devlist idle_controller = Some ''devices.yaml''" "''devices.yaml'' \<noteq> []"
    "open_file no_bulbs_world ''devices.yaml'' = None"
    "load_yaml no_bulbs_world ''devices.yaml'' = Inr (YMap None None)"
    by (simp_all add: idle_controller_def no_bulbs_world_def)
  have b: "load_yaml no_bulbs_world ''devices.yaml'' = Inl OSError
           \<or> load_yaml no_bulbs_world ''devices.yaml'' = Inr (YMap None None)"
    using a(4) by simp
  from manual_failure_falls_back[OF a(1) a(2) a(3) b]
  have "\<exists>c' es. discovery_process no_bulbs_world idle_controller
                  = automatic_discovery no_bulbs_world c'
              \<and> nodes c' = nodes idle_controller
              \<and> ctrace (state_of (discovery_process no_bulbs_world idle_controller))
                  = ctrace c' @ GetLights # es"
    by blast
  then show ?thesis using a by simp
qed

theorem manual_failure_counterexample:
  "load_yaml no_bulbs_world ''devices.yaml'' = Inr (YMap None None)
   \<and> ctrace (state_of (discovery_process no_bulbs_world idle_controller))
       = [CLog Info ''Starting LiFX Discovery thread...'',
          CLog Info ''Attempting manual discovery...'', OpenFile ''devices.yaml'',
          LoadYaml ''devices.yaml'',
          CLog Error ''Manual discovery file is missing bulbs section'',
          CLog Error ''Manual discovery failed'', GetLights,
          CLog Info ''bulbs found. Checking status and adding to ISY if necessary.'',
          GetLabel ''d0:73:d5:00:00:01'', SupportsMultizone ''d0:73:d5:00:00:01'',
          CLog Info ''Found Bulb'',
          AddNode ''d073d5000001'' (CLight, ''LIFX Lamp''),
          GetGroupTuple ''d0:73:d5:00:00:01'', CLog Info ''Found LiFX Group'',
          GetDevicesByGroup ''den'', AddNode ''den'' (CGroup, ''LIFX Group den''),
          CLog Info ''NOTICE: Bulb count is different'', CSetDriver ''GV0'' 1,
          CLog Info ''LiFX Discovery thread is complete.'']
   \<and> GetLights \<in> set (ctrace (state_of (discovery_process no_bulbs_world idle_controller)))
   \<and> nodes idle_controller ''d073d5000001'' = None
   \<and> nodes (state_of (discovery_process no_bulbs_world idle_controller)) ''d073d5000001''
       = Some (CLight, ''LIFX Lamp'')"
proof -
  have m: "mac_address ''d0:73:d5:00:00:01'' = ''d073d5000001''"
    by (simp add: mac_address_def lower_char_def)
  have g: "group_address ''den'' = ''den''"
    by (simp add: group_address_def lower_char_def)
  have r: "discovery_process no_bulbs_world idle_controller
      = Returned
         \<lparr>devlist = Some ''devices.yaml'', bulbs_found = 1, update_nodes = False, GV0 = Some 1,
          nodes = [''d073d5000001'' \<mapsto> (CLight, ''LIFX Lamp''),
                   ''den'' \<mapsto> (CGroup, ''LIFX Group den'')],
          ctrace = [CLog Info ''Starting LiFX Discovery thread...'',
          CLog Info ''Attempting manual discovery...'', OpenFile ''devices.yaml'',
          LoadYaml ''devices.yaml'',
          CLog Error ''Manual discovery file is missing bulbs section'',
          CLog Error ''Manual discovery failed'', GetLights,
          CLog Info ''bulbs found. Checking status and adding to ISY if necessary.'',
          GetLabel ''d0:73:d5:00:00:01'', SupportsMultizone ''d0:73:d5:00:00:01'',
          CLog Info ''Found Bulb'',
          AddNode ''d073d5000001'' (CLight, ''LIFX Lamp''),
          GetGroupTuple ''d0:73:d5:00:00:01'', CLog Info ''Found LiFX Group'',
          GetDevicesByGroup ''den'', AddNode ''den'' (CGroup, ''LIFX Group den''),
          CLog Info ''NOTICE: Bulb count is different'', CSetDriver ''GV0'' 1,
          CLog Info ''LiFX Discovery thread is complete.'']\<rparr>"
    by (simp add: discovery_process_def manual_discovery_def automatic_discovery_def
        auto_device_def m g idle_controller_def no_bulbs_world_def lamp_def
        controller_effects Let_def)
  show ?thesis
    unfolding r by (simp add: idle_controller_def no_bulbs_world_def)
qed

end
